theory Spec2Isabelle
  imports Main
begin

section \<open>Shared data\<close>

text \<open>
  The TypeScript unions of string literals \<open>HttpMethod\<close> and \<open>PCloudApiCommand\<close> are
  strings here too: the code compares them with \<open>===\<close> and splices them into URLs and
  messages.
\<close>

type_synonym HttpMethod = string
type_synonym PCloudApiCommand = string

text \<open>\<open>enum PCloudResponseCodes\<close>.\<close>

definition Ok :: int where "Ok = 0"
definition FileNotFound :: int where "FileNotFound = 2002"
definition ParentNotFound :: int where "ParentNotFound = 2005"

text \<open>
  A thrown JavaScript value. \<open>Error m c\<close> is an \<open>Error\<close> object with message \<open>m\<close> and
  the optional \<open>code\<close> property \<open>c\<close>; \<open>TypeError\<close> is what reading a property of
  \<open>null\<close> or \<open>undefined\<close> throws; \<open>SyntaxError\<close> is what \<open>JSON.parse\<close> throws.
\<close>

datatype error = Error string "string option" | TypeError | SyntaxError

fun code_of :: "error \<Rightarrow> string option" where
  "code_of (Error m c) = c"
| "code_of TypeError = None"
| "code_of SyntaxError = None"

datatype 'a outcome = Return 'a | Raise error

text \<open>\<open>interface PcloudAuth\<close>.\<close>

record PcloudAuth =
  access_token :: string
  token_type :: string
  userid :: int
  locationid :: int
  hostname :: string

text \<open>
  \<open>interface PcloudFileMetadata\<close>, with the fields the driver reads. Every field is
  optional in the source; \<open>contents\<close> is the listing a \<open>listfolder\<close> reply nests in
  its metadata.
\<close>

datatype PcloudFileMetadata = PcloudFileMetadata
  (name: "string option")
  (isfolder: "bool option")
  (isdeleted: "bool option")
  (created: "string option")
  (modified: "string option")
  (folderid: "int option")
  (contents: "PcloudFileMetadata list option")

text \<open>
  The parsed body of a reply as the driver reads it: \<open>result\<close>, \<open>error\<close>, \<open>metadata\<close>
  and, for \<open>PcloudFileDescriptorResponse\<close>, \<open>fd\<close>.
\<close>

record api_json =
  result :: int
  error_text :: "string option"
  metadata :: "PcloudFileMetadata option"
  fd :: "int option"

text \<open>
  The parsed body of a failed reply as \<open>responseToError\<close> reads it: a falsy value, an
  object whose \<open>error\<close> property is truthy (with that property's \<open>message\<close> and
  \<open>code\<close>), or any other value (with its \<open>JSON.stringify\<close> text).
\<close>

datatype error_response =
    Falsy
  | ErrorField string "string option"
  | NoErrorField string

text \<open>
  An HTTP response. \<open>parsed_error\<close> is \<open>JSON.parse(await response.text())\<close> as the
  retry loop reads it and \<open>json\<close> is \<open>await response.json()\<close> as the driver reads it;
  each is \<open>None\<close> when the parse throws. \<open>retry_after\<close> is
  \<open>response.headers._headers['retry-after']\<close>, \<open>None\<close> when that is undefined.
\<close>

record response =
  ok :: bool
  parsed_error :: "error_response option"
  json :: "api_json option"
  retry_after :: "string list option"

text \<open>A query object, in the order its properties are written.\<close>

datatype qvalue = QStr string | QNum int | QUndefined

type_synonym query = "(string \<times> qvalue) list"

text \<open>
  The data of a call: the content \<open>put\<close> writes, or the options object \<open>list\<close> hands
  on in that position.
\<close>

datatype payload = Content string | ListOptions "(string \<times> bool) list"

text \<open>
  What the code imports and this repository's sources do not hold, taken as parameters:
  \<open>shim.fetchRequestCanBeRetried\<close>, JavaScript's \<open>Number\<close> on a string (\<open>None\<close> is
  \<open>NaN\<close>; the values kept are the integers), \<open>stringify\<close> of query-string,
  \<open>moment(s, PCLOUD_DATE_FORMAT).format('x')\<close>, and \<open>dirname\<close> and \<open>basename\<close> of
  path-utils (\<open>Raise\<close> when they throw).
\<close>

record deps =
  fetchRequestCanBeRetried :: "error \<Rightarrow> bool"
  Number :: "string \<Rightarrow> int option"
  stringify :: "query \<Rightarrow> string"
  momentFormatX :: "string option \<Rightarrow> string"
  dirname :: "string \<Rightarrow> string outcome"
  basename :: "string \<Rightarrow> string outcome"

section \<open>PCloudApi\<close>

definition apiUrl :: "PcloudAuth \<Rightarrow> PCloudApiCommand \<Rightarrow> string \<Rightarrow> string" where
  "apiUrl auth command queryString =
     ''https://'' @ hostname auth @ ''/'' @ command @ ''?'' @ queryString"

fun responseToError :: "error_response \<Rightarrow> error" where
  "responseToError Falsy = Error ''Undefined error'' None"
| "responseToError (ErrorField m c) =
     Error m (case c of None \<Rightarrow> None | Some s \<Rightarrow> if s = [] then None else Some s)"
| "responseToError (NoErrorField s) = Error s None"

text \<open>
  The \<open>options\<close> object of \<open>exec\<close>, with the two properties that select the transport.
\<close>

record options =
  source :: "string option"
  target :: "string option"

datatype transport = uploadBlob | fetch | fetchBlob

text \<open>
  The transport \<open>exec\<close> selects, after \<open>if (!options.target) options.target = 'string'\<close>.
\<close>

definition transport_of :: "HttpMethod \<Rightarrow> options option \<Rightarrow> transport" where
  "transport_of method opts =
     (let src = (case opts of None \<Rightarrow> None | Some o1 \<Rightarrow> source o1);
          tgt = (case opts of None \<Rightarrow> ''string''
                 | Some o1 \<Rightarrow> (case target o1 of None \<Rightarrow> ''string''
                              | Some t \<Rightarrow> if t = [] then ''string'' else t))
      in if src = Some ''file'' \<and> (method = ''POST'' \<or> method = ''PUT'') then uploadBlob
         else if tgt = ''string'' then fetch
         else fetchBlob)"

text \<open>
  What one attempt's transport call does: it throws, or it resolves to a response. The
  loop runs against the list of these outcomes, one per request sent.
\<close>

datatype fetch_outcome = Throws error | Responds response

text \<open>What the loop does that a caller can observe: requests sent and sleeps, in order.\<close>

datatype event = Request transport | Sleep int

text \<open>
  A run of the loop: its result (\<open>None\<close> when the list of outcomes ran out before the
  loop finished; \<open>Return None\<close> is the bare \<open>return\<close>), the events, the outcomes left.
\<close>

type_synonym run = "response option outcome option \<times> event list \<times> fetch_outcome list"

fun emit :: "event list \<Rightarrow> run \<Rightarrow> run" where
  "emit es (r, tr, rest) = (r, es @ tr, rest)"

text \<open>
  \<open>handleRequestRepeat\<close>: \<open>sleepSeconds ??= (i + 1) * 5\<close>, then \<open>time.sleep(sleepSeconds)\<close>;
  the value is the number of seconds slept.
\<close>

fun handleRequestRepeat :: "int \<Rightarrow> int option \<Rightarrow> int" where
  "handleRequestRepeat i None = (i + 1) * 5"
| "handleRequestRepeat i (Some sleepSeconds) = sleepSeconds"

text \<open>
  The condition of the \<open>activityLimitReached\<close> branch,
  \<open>error?.code === 'activityLimitReached' && h && !isNaN(Number(h))\<close> with
  \<open>h = response?.headers?._headers['retry-after'][0]\<close>: \<open>Return (Some n)\<close> when it holds
  and \<open>Number(h)\<close> is \<open>n\<close>, \<open>Return None\<close> when it is false, \<open>Raise TypeError\<close> when the
  header is absent and indexing it throws.
\<close>

definition retryAfterSeconds :: "deps \<Rightarrow> error \<Rightarrow> response \<Rightarrow> int option outcome" where
  "retryAfterSeconds d err r =
     (if code_of err = Some ''activityLimitReached'' then
        (case retry_after r of
           None \<Rightarrow> Raise TypeError
         | Some [] \<Rightarrow> Return None
         | Some (h # hs) \<Rightarrow> if h = [] then Return None else Return (Number d h))
      else Return None)"

definition exhausted :: "HttpMethod \<Rightarrow> string \<Rightarrow> error" where
  "exhausted method url =
     Error (''Could not execute request after multiple attempts: '' @ method @ '' '' @ url) None"

text \<open>
  The body of \<open>for (let i = 0; i < 5; i++)\<close> in \<open>exec\<close>, from the value \<open>i\<close> of the
  counter. \<open>continue\<close> is the recursive call at \<open>i + 1\<close>; the rate-limit branch runs
  \<open>i--\<close> first. The \<open>request\<close> and \<open>headers\<close> properties attached to a fatal error
  are not part of the model.
\<close>

fun exec_loop :: "deps \<Rightarrow> transport \<Rightarrow> HttpMethod \<Rightarrow> string \<Rightarrow> int \<Rightarrow> fetch_outcome list \<Rightarrow> run" where
  "exec_loop d t method url i [] =
     (if i < 5 then (None, [], []) else (Some (Raise (exhausted method url)), [], []))"
| "exec_loop d t method url i (out # rest) =
     (if \<not> i < 5 then (Some (Raise (exhausted method url)), [], out # rest)
      else emit [Request t]
        (case out of
           Throws e \<Rightarrow>
             if fetchRequestCanBeRetried d e
             then emit [Sleep (handleRequestRepeat i None)] (exec_loop d t method url (i + 1) rest)
             else (Some (Raise e), [], rest)
         | Responds r \<Rightarrow>
             if \<not> ok r then
               (case parsed_error r of
                  None \<Rightarrow>
                    emit [Sleep (handleRequestRepeat i None)] (exec_loop d t method url (i + 1) rest)
                | Some errorResponse \<Rightarrow>
                    (let err = responseToError errorResponse in
                     if code_of err = Some ''InvalidAuthenticationToken''
                        \<or> code_of err = Some ''unauthenticated''
                     then exec_loop d t method url (i + 1) rest
                     else if code_of err = Some ''generalException'' \<or> code_of err = Some ''EAGAIN''
                     then emit [Sleep (handleRequestRepeat i None)]
                            (exec_loop d t method url (i + 1) rest)
                     else if code_of err = Some ''resourceModified''
                     then emit [Sleep (handleRequestRepeat i None)]
                            (exec_loop d t method url (i + 1) rest)
                     else (case retryAfterSeconds d err r of
                             Raise e \<Rightarrow> (Some (Raise e), [], rest)
                           | Return (Some sleepSeconds) \<Rightarrow>
                               emit [Sleep (handleRequestRepeat (i - 1) (Some sleepSeconds))]
                                 (exec_loop d t method url ((i - 1) + 1) rest)
                           | Return None \<Rightarrow>
                               if code_of err = Some ''itemNotFound'' \<and> method = ''DELETE''
                               then (Some (Return None), [], rest)
                               else (Some (Raise err), [], rest))))
             else (Some (Return (Some r)), [], rest)))"

text \<open>
  \<open>exec\<close>: the URL is built from the current token's hostname (reading it off a null
  token throws), the transport is chosen, and the loop starts at \<open>i = 0\<close>. The data
  becomes the body of the request and the token its \<open>Authorization\<close> header; neither
  changes what the loop does.
\<close>

definition exec ::
  "deps \<Rightarrow> PcloudAuth option \<Rightarrow> HttpMethod \<Rightarrow> PCloudApiCommand \<Rightarrow> query \<Rightarrow> payload option
     \<Rightarrow> options option \<Rightarrow> fetch_outcome list \<Rightarrow> run" where
  "exec d auth method command q dat opts script =
     (case auth of
        None \<Rightarrow> (Some (Raise TypeError), [], script)
      | Some a \<Rightarrow>
          exec_loop d (transport_of method opts) method (apiUrl a command (stringify d q)) 0 script)"


section \<open>FileApiDriverPCloud\<close>

text \<open>
  A number or an optional string inside a template literal: \<open>`${n}`\<close> is the decimal
  numeral and \<open>`${undefined}`\<close> is the text \<open>undefined\<close>.
\<close>

fun string_of_nat :: "nat \<Rightarrow> string" where
  "string_of_nat n =
     (if n < 10 then [char_of (48 + n)]
      else string_of_nat (n div 10) @ [char_of (48 + n mod 10)])"

declare string_of_nat.simps [simp del]

definition string_of_int :: "int \<Rightarrow> string" where
  "string_of_int i = (if i < 0 then ''-'' @ string_of_nat (nat (- i)) else string_of_nat (nat i))"

fun string_of_opt :: "string option \<Rightarrow> string" where
  "string_of_opt None = ''undefined''"
| "string_of_opt (Some s) = s"

fun string_of_num_opt :: "int option \<Rightarrow> string" where
  "string_of_num_opt None = ''undefined''"
| "string_of_num_opt (Some n) = string_of_int n"

text \<open>
  A value stored in a stat's time fields: \<open>format('x')\<close> gives a string, \<open>Number(...)\<close>
  a number or \<open>NaN\<close>.
\<close>

datatype jsvalue = JString string | JNumber int | JNaN

text \<open>\<open>interface PcloudFileStat\<close>.\<close>

record PcloudFileStat =
  path :: "string option"
  isDir :: "bool option"
  isDeleted :: "bool option"
  updated_time :: "jsvalue option"
  created_time :: "jsvalue option"
  stat_folderid :: "string option"

text \<open>What \<open>exec\<close> is called with: method, command, query, data and options.\<close>

datatype call = Call HttpMethod PCloudApiCommand query "payload option" "options option"

text \<open>
  The driver runs against \<open>this.api_.exec\<close>, taken as a function of the call and of the
  state of everything behind it (client, network, provider): it returns what \<open>exec\<close>
  resolves to or throws, and the next state. The driver's own state adds the list of the
  calls it has made.
\<close>

type_synonym 's api = "call \<Rightarrow> 's \<Rightarrow> response option outcome \<times> 's"

type_synonym 's dstate = "'s \<times> call list"

fun api_exec :: "'s api \<Rightarrow> call \<Rightarrow> 's dstate \<Rightarrow> response option outcome \<times> 's dstate" where
  "api_exec api c (s, calls) = (case api c s of (r, s') \<Rightarrow> (r, (s', calls @ [c])))"

text \<open>
  \<open>await response.json()\<close>: reading it off \<open>undefined\<close> throws, and so does a body
  that is not JSON.
\<close>

fun response_json :: "response option \<Rightarrow> api_json outcome" where
  "response_json None = Raise TypeError"
| "response_json (Some r) = (case json r of None \<Rightarrow> Raise SyntaxError | Some j \<Rightarrow> Return j)"

text \<open>\<open>PCloudApi.execJson\<close>, as the driver calls it.\<close>

definition execJson ::
  "'s api \<Rightarrow> HttpMethod \<Rightarrow> PCloudApiCommand \<Rightarrow> query \<Rightarrow> 's dstate \<Rightarrow> api_json outcome \<times> 's dstate" where
  "execJson api method command q st =
     (case api_exec api (Call method command q None None) st of
        (Raise e, st') \<Rightarrow> (Raise e, st')
      | (Return resp, st') \<Rightarrow> (response_json resp, st'))"

definition makePath :: "string \<Rightarrow> string" where
  "makePath pth = (case pth of c # cs \<Rightarrow> if c = CHR ''/'' then pth else ''/'' @ pth | [] \<Rightarrow> ''/'' @ pth)"

definition makeItem :: "deps \<Rightarrow> PcloudFileMetadata \<Rightarrow> PcloudFileStat" where
  "makeItem d odItem =
     (let output = \<lparr>path = name odItem, isDir = isfolder odItem, isDeleted = None,
                    updated_time = None, created_time = None, stat_folderid = None\<rparr>
      in if isdeleted odItem = Some True then output\<lparr>isDeleted := Some True\<rparr>
         else output
           \<lparr>created_time := Some (JString (momentFormatX d (created odItem))),
            updated_time :=
              Some (case Number d (momentFormatX d (modified odItem)) of
                      None \<Rightarrow> JNaN | Some n \<Rightarrow> JNumber n)\<rparr>)"

fun makeItems :: "deps \<Rightarrow> PcloudFileMetadata list \<Rightarrow> PcloudFileStat list" where
  "makeItems d [] = []"
| "makeItems d (odItem # odItems) = makeItem d odItem # makeItems d odItems"

definition rootFolderMetadata :: "'s api \<Rightarrow> 's dstate \<Rightarrow> PcloudFileMetadata option outcome \<times> 's dstate" where
  "rootFolderMetadata api st =
     (case execJson api ''GET'' ''listfolder'' [(''path'', QStr ''/''), (''recursive'', QNum 0)] st of
        (Raise e, st') \<Rightarrow> (Raise e, st')
      | (Return resp, st') \<Rightarrow> (Return (metadata resp), st'))"

definition statRaw :: "'s api \<Rightarrow> string \<Rightarrow> 's dstate \<Rightarrow> PcloudFileMetadata option outcome \<times> 's dstate" where
  "statRaw api pth st =
     (if pth = [] then rootFolderMetadata api st
      else
        (case api_exec api (Call ''GET'' ''stat'' [(''path'', QStr (makePath pth))] None None) st of
           (Raise e, st') \<Rightarrow> (Raise e, st')
         | (Return resp, st') \<Rightarrow>
             (case response_json resp of
                Raise e \<Rightarrow> (Raise e, st')
              | Return jsonResponse \<Rightarrow>
                  if result jsonResponse \<noteq> Ok then
                    (if result jsonResponse = FileNotFound then (Return None, st')
                     else (Raise (Error (case error_text jsonResponse of None \<Rightarrow> [] | Some m \<Rightarrow> m)
                                   None), st'))
                  else (Return (metadata jsonResponse), st'))))"

definition stat :: "deps \<Rightarrow> 's api \<Rightarrow> string \<Rightarrow> 's dstate \<Rightarrow> PcloudFileStat option outcome \<times> 's dstate" where
  "stat d api pth st =
     (case statRaw api pth st of
        (Raise e, st') \<Rightarrow> (Raise e, st')
      | (Return None, st') \<Rightarrow> (Return None, st')
      | (Return (Some item), st') \<Rightarrow> (Return (Some (makeItem d item)), st'))"

record list_result =
  hasMore :: bool
  items :: "PcloudFileStat list"

text \<open>
  \<open>list\<close>; its \<open>options\<close> go to \<open>exec\<close> as the data. \<open>result.metadata.contents\<close>
  throws when \<open>metadata\<close> is undefined, and \<open>makeItems\<close> throws reading the length
  of undefined contents.
\<close>

definition list :: "deps \<Rightarrow> 's api \<Rightarrow> string \<Rightarrow> payload option \<Rightarrow> 's dstate \<Rightarrow> list_result outcome \<times> 's dstate" where
  "list d api pth opts st =
     (case api_exec api
             (Call ''GET'' ''listfolder'' [(''path'', QStr (makePath pth)), (''recursive'', QNum 1)]
                opts None) st of
        (Raise e, st') \<Rightarrow> (Raise e, st')
      | (Return resp, st') \<Rightarrow>
          (case response_json resp of
             Raise e \<Rightarrow> (Raise e, st')
           | Return res \<Rightarrow>
               if result res = FileNotFound then (Return \<lparr>hasMore = False, items = []\<rparr>, st')
               else
                 (case metadata res of
                    None \<Rightarrow> (Raise TypeError, st')
                  | Some md \<Rightarrow>
                      (case contents md of
                         None \<Rightarrow> (Raise TypeError, st')
                       | Some cs \<Rightarrow> (Return \<lparr>hasMore = False, items = makeItems d cs\<rparr>, st')))))"

fun qnum :: "int option \<Rightarrow> qvalue" where
  "qnum None = QUndefined"
| "qnum (Some n) = QNum n"

definition execCreateDir ::
  "'s api \<Rightarrow> string \<Rightarrow> int option \<Rightarrow> 's dstate \<Rightarrow> PcloudFileMetadata option outcome \<times> 's dstate" where
  "execCreateDir api nm parentFolderId st =
     (case api_exec api
             (Call ''GET'' ''createfolderifnotexists''
                [(''folderid'', qnum parentFolderId), (''name'', QStr nm)] None None) st of
        (Raise e, st') \<Rightarrow> (Raise e, st')
      | (Return resp, st') \<Rightarrow>
          (case response_json resp of
             Raise e \<Rightarrow> (Raise e, st')
           | Return jsonResponse \<Rightarrow>
               if result jsonResponse \<noteq> Ok then
                 (Raise (Error (''Could not create directory: '' @ nm @ '', parent: ''
                                 @ string_of_num_opt parentFolderId @ ''. Cause: ''
                                 @ string_of_int (result jsonResponse) @ '' - ''
                                 @ string_of_opt (error_text jsonResponse)) None), st')
               else (Return (metadata jsonResponse), st')))"

text \<open>
  \<open>mkdir\<close>. Reading \<open>folderid\<close> off a null \<open>parentPathMetadata\<close> throws, and so does
  \<open>makeItem\<close> on an undefined \<open>newItem\<close>.
\<close>

definition mkdir :: "deps \<Rightarrow> 's api \<Rightarrow> string \<Rightarrow> 's dstate \<Rightarrow> PcloudFileStat outcome \<times> 's dstate" where
  "mkdir d api pth st =
     (case stat d api pth st of
        (Raise e, st1) \<Rightarrow> (Raise e, st1)
      | (Return (Some item), st1) \<Rightarrow> (Return item, st1)
      | (Return None, st1) \<Rightarrow>
          (case dirname d pth of
             Raise e \<Rightarrow> (Raise e, st1)
           | Return parentPath \<Rightarrow>
               (case statRaw api parentPath st1 of
                  (Raise e, st2) \<Rightarrow> (Raise e, st2)
                | (Return None, st2) \<Rightarrow> (Raise TypeError, st2)
                | (Return (Some parentPathMetadata), st2) \<Rightarrow>
                    (case execCreateDir api parentPath (folderid parentPathMetadata) st2 of
                       (Raise e, st3) \<Rightarrow> (Raise e, st3)
                     | (Return None, st3) \<Rightarrow> (Raise TypeError, st3)
                     | (Return (Some newItem), st3) \<Rightarrow> (Return (makeItem d newItem), st3)))))"

definition fileExists :: "'s api \<Rightarrow> string \<Rightarrow> 's dstate \<Rightarrow> bool outcome \<times> 's dstate" where
  "fileExists api pth st =
     (case api_exec api
             (Call ''GET'' ''listfolder'' [(''path'', QStr (makePath pth)), (''recursive'', QNum 0)]
                None None) st of
        (Raise e, st') \<Rightarrow> (Raise e, st')
      | (Return resp, st') \<Rightarrow>
          (case response_json resp of
             Raise e \<Rightarrow> (Raise e, st')
           | Return res \<Rightarrow>
               if result res \<noteq> Ok \<and> result res \<noteq> ParentNotFound then
                 (Raise (Error (''Cannot check directory for existence: ''
                                 @ string_of_opt (error_text res)) None), st')
               else (Return (result res = Ok), st')))"

text \<open>
  \<open>createDirRecursively\<close>. The recursion follows \<open>dirname\<close>, which is a parameter, so
  the first argument bounds its depth: \<open>None\<close> is a recursion deeper than that.
\<close>

fun createDirRecursively ::
  "nat \<Rightarrow> deps \<Rightarrow> 's api \<Rightarrow> string \<Rightarrow> 's dstate
     \<Rightarrow> (PcloudFileMetadata option outcome \<times> 's dstate) option" where
  "createDirRecursively 0 d api directoryPath st = None"
| "createDirRecursively (Suc fuel) d api directoryPath st =
     (if directoryPath = [] \<or> directoryPath = ''/'' then Some (statRaw api directoryPath st)
      else
        (case dirname d directoryPath of
           Raise e \<Rightarrow> Some (Raise e, st)
         | Return parentDir \<Rightarrow>
             (case fileExists api parentDir st of
                (Raise e, st1) \<Rightarrow> Some (Raise e, st1)
              | (Return ex, st1) \<Rightarrow>
                  (case (if ex then Some (statRaw api parentDir st1)
                         else createDirRecursively fuel d api parentDir st1) of
                     None \<Rightarrow> None
                   | Some (Raise e, st2) \<Rightarrow> Some (Raise e, st2)
                   | Some (Return baseDirStat, st2) \<Rightarrow>
                       (case basename d directoryPath of
                          Raise e \<Rightarrow> Some (Raise e, st2)
                        | Return nm \<Rightarrow>
                            (case baseDirStat of
                               None \<Rightarrow> Some (Raise TypeError, st2)
                             | Some b \<Rightarrow> Some (execCreateDir api nm (folderid b) st2)))))))"

text \<open>
  \<open>putFile\<close>, the branch of \<open>put\<close> for \<open>options.source === 'file'\<close>.
\<close>

definition putFile ::
  "nat \<Rightarrow> deps \<Rightarrow> 's api \<Rightarrow> string \<Rightarrow> options \<Rightarrow> 's dstate
     \<Rightarrow> (response option outcome \<times> 's dstate) option" where
  "putFile fuel d api pth opts st =
     (case dirname d pth of
        Raise e \<Rightarrow> Some (Raise e, st)
      | Return parentPath \<Rightarrow>
          (let opts' = opts\<lparr>source := Some ''file''\<rparr> in
           case fileExists api parentPath st of
             (Raise e, st1) \<Rightarrow> Some (Raise e, st1)
           | (Return ex, st1) \<Rightarrow>
               (case (if \<not> ex then createDirRecursively fuel d api parentPath st1
                      else Some (Return None, st1)) of
                  None \<Rightarrow> None
                | Some (Raise e, st2) \<Rightarrow> Some (Raise e, st2)
                | Some (Return unused, st2) \<Rightarrow>
                    (case basename d pth of
                       Raise e \<Rightarrow> Some (Raise e, st2)
                     | Return nm \<Rightarrow>
                         Some (api_exec api
                                 (Call ''PUT'' ''uploadfile''
                                    [(''path'', QStr (''/'' @ parentPath)), (''filename'', QStr nm)]
                                    None (Some opts')) st2)))))"

text \<open>
  \<open>put\<close>. It calls itself after creating the parent directories, as often as
  \<open>file_open\<close> reports \<open>FileNotFound\<close>; the first argument bounds the depth of that
  recursion and of \<open>createDirRecursively\<close>'s. A fetch response has no \<open>error\<close>
  property, so \<open>${response.error}\<close> is the text \<open>undefined\<close>. The \<open>agent\<close> that
  \<open>put\<close> adds to the options is not part of the model.
\<close>

fun put ::
  "nat \<Rightarrow> deps \<Rightarrow> 's api \<Rightarrow> string \<Rightarrow> string \<Rightarrow> options option \<Rightarrow> 's dstate
     \<Rightarrow> (response option outcome \<times> 's dstate) option" where
  "put 0 d api pth content opts st = None"
| "put (Suc fuel) d api pth content opts st =
     (let p = makePath pth;
          opts' = (case opts of None \<Rightarrow> \<lparr>source = None, target = None\<rparr> | Some o1 \<Rightarrow> o1)
      in if source opts' = Some ''file'' then putFile fuel d api p opts' st
         else
           (case api_exec api
                   (Call ''GET'' ''file_open'' [(''flags'', QNum 64), (''path'', QStr p)] None
                      (Some opts')) st of
              (Raise e, st1) \<Rightarrow> Some (Raise e, st1)
            | (Return None, st1) \<Rightarrow> Some (Raise TypeError, st1)
            | (Return (Some resp), st1) \<Rightarrow>
                if \<not> ok resp then
                  Some (Raise (Error (''Error creating file descriptor '' @ p @ '' undefined'') None),
                        st1)
                else
                  (case response_json (Some resp) of
                     Raise e \<Rightarrow> Some (Raise e, st1)
                   | Return fileDescriptorResponse \<Rightarrow>
                       if result fileDescriptorResponse \<noteq> Ok then
                         (if result fileDescriptorResponse = FileNotFound then
                            (case dirname d p of
                               Raise e \<Rightarrow> Some (Raise e, st1)
                             | Return parentDir \<Rightarrow>
                                 (case createDirRecursively fuel d api parentDir st1 of
                                    None \<Rightarrow> None
                                  | Some (Raise e, st2) \<Rightarrow> Some (Raise e, st2)
                                  | Some (Return unused, st2) \<Rightarrow>
                                      put fuel d api p content (Some opts') st2))
                          else
                            Some (Raise (Error (''Error creating file descriptor '' @ p
                                                 @ ''.PCloud error code: ''
                                                 @ string_of_int (result fileDescriptorResponse)
                                                 @ ''. Cause ''
                                                 @ string_of_opt (error_text fileDescriptorResponse))
                                          None), st1))
                       else
                         Some (api_exec api
                                 (Call ''PUT'' ''file_write'' [(''fd'', qnum (fd fileDescriptorResponse))]
                                    (Some (Content content)) (Some opts')) st1))))"

text \<open>\<open>delete\<close>.\<close>

definition delete :: "'s api \<Rightarrow> string \<Rightarrow> 's dstate \<Rightarrow> PcloudFileMetadata option outcome \<times> 's dstate" where
  "delete api pth st =
     (let p = makePath pth in
      case api_exec api (Call ''GET'' ''deletefile'' [(''path'', QStr p)] None None) st of
        (Raise e, st') \<Rightarrow> (Raise e, st')
      | (Return resp, st') \<Rightarrow>
          (case response_json resp of
             Raise e \<Rightarrow> (Raise e, st')
           | Return jsonResponse \<Rightarrow>
               if result jsonResponse \<noteq> Ok then
                 (Raise (Error (''Could not delete file: '' @ p @ ''. Cause: ''
                                 @ string_of_opt (error_text jsonResponse)) None), st')
               else (Return (metadata jsonResponse), st')))"


section \<open>Vocabulary of the properties\<close>

subsection \<open>Outcomes of an attempt, as the retry loop classifies them\<close>

text \<open>
  A rate-limit reply carrying a numeric \<open>retry-after\<close> of \<open>n\<close> seconds: a failed
  response whose error code is \<open>activityLimitReached\<close> and whose first \<open>retry-after\<close>
  value is a non-empty string that \<open>Number\<close> reads as \<open>n\<close>.
\<close>

definition throttled :: "deps \<Rightarrow> response \<Rightarrow> int \<Rightarrow> bool" where
  "throttled d r n =
     (\<not> ok r
      \<and> (case parsed_error r of
           None \<Rightarrow> False
         | Some er \<Rightarrow> code_of (responseToError er) = Some ''activityLimitReached'')
      \<and> (case retry_after r of
           Some (h # hs) \<Rightarrow> h \<noteq> [] \<and> Number d h = Some n
         | _ \<Rightarrow> False))"

text \<open>
  An ordinary retryable failure: a transport error the transport layer calls retryable,
  a failed response whose body does not parse, or one whose error code is
  \<open>generalException\<close>, \<open>EAGAIN\<close> or \<open>resourceModified\<close>.
\<close>

definition ordinaryRetryable :: "deps \<Rightarrow> fetch_outcome \<Rightarrow> bool" where
  "ordinaryRetryable d out =
     (case out of
        Throws e \<Rightarrow> fetchRequestCanBeRetried d e
      | Responds r \<Rightarrow>
          \<not> ok r
          \<and> (case parsed_error r of
               None \<Rightarrow> True
             | Some er \<Rightarrow>
                 code_of (responseToError er) = Some ''generalException''
                 \<or> code_of (responseToError er) = Some ''EAGAIN''
                 \<or> code_of (responseToError er) = Some ''resourceModified''))"

text \<open>A failed response whose error code is \<open>itemNotFound\<close>.\<close>

definition itemNotFound :: "response \<Rightarrow> bool" where
  "itemNotFound r =
     (\<not> ok r
      \<and> (case parsed_error r of
           None \<Rightarrow> False
         | Some er \<Rightarrow> code_of (responseToError er) = Some ''itemNotFound''))"

subsection \<open>Calls of the driver and replies of the provider\<close>

text \<open>An operation raises when its outcome is a thrown value.\<close>

fun raises :: "'a outcome \<Rightarrow> bool" where
  "raises (Raise e) = True"
| "raises (Return v) = False"

fun command_of :: "call \<Rightarrow> PCloudApiCommand" where
  "command_of (Call method command q dat opts) = command"

fun method_of :: "call \<Rightarrow> HttpMethod" where
  "method_of (Call method command q dat opts) = method"

text \<open>The number of calls of one command in a list of calls.\<close>

definition calls_of :: "PCloudApiCommand \<Rightarrow> call list \<Rightarrow> nat" where
  "calls_of command cs = length (filter (\<lambda>c. command_of c = command) cs)"

text \<open>
  The calls the driver makes: the metadata lookup of \<open>statRaw\<close> (a shallow listing of
  \<open>/\<close> for the empty path, a \<open>stat\<close> query otherwise), the shallow listing of
  \<open>fileExists\<close>, the recursive listing of \<open>list\<close>, and the creation, deletion, open
  and write calls.
\<close>

definition lookupCall :: "string \<Rightarrow> call" where
  "lookupCall pth =
     (if pth = [] then
        Call ''GET'' ''listfolder'' [(''path'', QStr ''/''), (''recursive'', QNum 0)] None None
      else Call ''GET'' ''stat'' [(''path'', QStr (makePath pth))] None None)"

definition existsCall :: "string \<Rightarrow> call" where
  "existsCall pth =
     Call ''GET'' ''listfolder'' [(''path'', QStr (makePath pth)), (''recursive'', QNum 0)] None None"

definition listCall :: "string \<Rightarrow> payload option \<Rightarrow> call" where
  "listCall pth opts =
     Call ''GET'' ''listfolder'' [(''path'', QStr (makePath pth)), (''recursive'', QNum 1)] opts None"

definition createCall :: "int option \<Rightarrow> string \<Rightarrow> call" where
  "createCall parentFolderId nm =
     Call ''GET'' ''createfolderifnotexists''
       [(''folderid'', qnum parentFolderId), (''name'', QStr nm)] None None"

definition deleteCall :: "string \<Rightarrow> call" where
  "deleteCall pth = Call ''GET'' ''deletefile'' [(''path'', QStr (makePath pth))] None None"

definition openCall :: "string \<Rightarrow> options \<Rightarrow> call" where
  "openCall pth opts =
     Call ''GET'' ''file_open'' [(''flags'', QNum 64), (''path'', QStr (makePath pth))] None (Some opts)"

definition writeCall :: "int option \<Rightarrow> string \<Rightarrow> options \<Rightarrow> call" where
  "writeCall fdv content opts =
     Call ''PUT'' ''file_write'' [(''fd'', qnum fdv)] (Some (Content content)) (Some opts)"

text \<open>
  A reply is a response whose body satisfies \<open>Q\<close>; \<open>reports c\<close> is a reply with
  result code \<open>c\<close>, \<open>carries c m\<close> one that also holds the metadata \<open>m\<close>.
\<close>

definition body_is :: "(api_json \<Rightarrow> bool) \<Rightarrow> response option outcome \<Rightarrow> bool" where
  "body_is Q r =
     (case r of
        Return (Some resp) \<Rightarrow> (case json resp of None \<Rightarrow> False | Some j \<Rightarrow> Q j)
      | _ \<Rightarrow> False)"

definition reports :: "int \<Rightarrow> response option outcome \<Rightarrow> bool" where
  "reports c = body_is (\<lambda>j. result j = c)"

definition carries :: "int \<Rightarrow> PcloudFileMetadata \<Rightarrow> response option outcome \<Rightarrow> bool" where
  "carries c m = body_is (\<lambda>j. result j = c \<and> metadata j = Some m)"

text \<open>
  The replies to the metadata lookup of a path: \<open>found pth m\<close> holds the metadata
  \<open>m\<close>, with result code \<open>Ok\<close> (which the lookup of the empty path does not read);
  \<open>notFound\<close> reports \<open>FileNotFound\<close> and holds no metadata.
\<close>

definition found :: "string \<Rightarrow> PcloudFileMetadata \<Rightarrow> response option outcome \<Rightarrow> bool" where
  "found pth m = body_is (\<lambda>j. (pth = [] \<or> result j = Ok) \<and> metadata j = Some m)"

definition notFound :: "response option outcome \<Rightarrow> bool" where
  "notFound = body_is (\<lambda>j. result j = FileNotFound \<and> metadata j = None)"

text \<open>
  Replies to \<open>file_open\<close>: \<open>answers c\<close> is an HTTP success whose body has the result
  code \<open>c\<close>; \<open>opens fdv\<close> is one with the code \<open>Ok\<close> and the descriptor \<open>fdv\<close>.
\<close>

definition answers :: "int \<Rightarrow> response option outcome \<Rightarrow> bool" where
  "answers c r =
     (case r of
        Return (Some resp) \<Rightarrow> ok resp \<and> (case json resp of None \<Rightarrow> False | Some j \<Rightarrow> result j = c)
      | _ \<Rightarrow> False)"

definition opens :: "int option \<Rightarrow> response option outcome \<Rightarrow> bool" where
  "opens fdv r =
     (case r of
        Return (Some resp) \<Rightarrow>
          ok resp \<and> (case json resp of None \<Rightarrow> False | Some j \<Rightarrow> result j = Ok \<and> fd j = fdv)
      | _ \<Rightarrow> False)"

text \<open>
  \<open>converses api s talk s'\<close>: from state \<open>s\<close>, the calls of \<open>talk\<close> made in order get
  replies that satisfy the conditions paired with them, and leave state \<open>s'\<close>.
\<close>

type_synonym talk = "(call \<times> (response option outcome \<Rightarrow> bool)) list"

fun converses :: "'s api \<Rightarrow> 's \<Rightarrow> talk \<Rightarrow> 's \<Rightarrow> bool" where
  "converses api s [] s' = (s' = s)"
| "converses api s ((c, P) # xs) s' = (case api c s of (r, s1) \<Rightarrow> P r \<and> converses api s1 xs s')"

subsection \<open>A chain of missing directories\<close>

text \<open>
  A missing directory: its path, its final component, and the metadata the provider
  returns when it is created. A chain lists the missing directories from the deepest
  one up; \<open>d0\<close> is the parent of the last, which exists.
\<close>

type_synonym level = "string \<times> string \<times> PcloudFileMetadata"

fun chain_ok :: "deps \<Rightarrow> string \<Rightarrow> level list \<Rightarrow> bool" where
  "chain_ok d d0 [] = True"
| "chain_ok d d0 [(dir, nm, md)] =
     (dir \<noteq> [] \<and> dir \<noteq> ''/'' \<and> dirname d dir = Return d0 \<and> basename d dir = Return nm)"
| "chain_ok d d0 ((dir, nm, md) # (dir', nm', md') # ls) =
     (dir \<noteq> [] \<and> dir \<noteq> ''/'' \<and> dirname d dir = Return dir' \<and> basename d dir = Return nm
      \<and> chain_ok d d0 ((dir', nm', md') # ls))"

text \<open>
  The calls that create the chain and the replies of a provider on which the chain is
  missing: each missing parent's shallow listing reports \<open>ParentNotFound\<close>, the
  listing of \<open>d0\<close> reports \<open>Ok\<close> and its lookup carries the metadata \<open>m0\<close>, and every
  directory is created in the folder just above it.
\<close>

fun chain_talk :: "string \<Rightarrow> PcloudFileMetadata \<Rightarrow> level list \<Rightarrow> talk" where
  "chain_talk d0 m0 [] = []"
| "chain_talk d0 m0 [(dir, nm, md)] =
     [(existsCall d0, reports Ok),
      (lookupCall d0, found d0 m0),
      (createCall (folderid m0) nm, carries Ok md)]"
| "chain_talk d0 m0 ((dir, nm, md) # (dir', nm', md') # ls) =
     (existsCall dir', reports ParentNotFound)
     # chain_talk d0 m0 ((dir', nm', md') # ls)
     @ [(createCall (folderid md') nm, carries Ok md)]"


text \<open>
  The creation calls of a chain, from the shallowest missing directory down: each names
  the directory's final component and the folder identifier of the directory above it.
\<close>

fun creations :: "PcloudFileMetadata \<Rightarrow> level list \<Rightarrow> call list" where
  "creations m0 [] = []"
| "creations m0 [(dir, nm, md)] = [createCall (folderid m0) nm]"
| "creations m0 ((dir, nm, md) # (dir', nm', md') # ls) =
     creations m0 ((dir', nm', md') # ls) @ [createCall (folderid md') nm]"

text \<open>The options \<open>put\<close> works with, after \<open>if (!options) options = {}\<close>.\<close>

definition put_options :: "options option \<Rightarrow> options" where
  "put_options popts = (case popts of None \<Rightarrow> \<lparr>source = None, target = None\<rparr> | Some o1 \<Rightarrow> o1)"

text \<open>
  A \<open>put\<close> whose parent chain is missing: \<open>file_open\<close> answers \<open>FileNotFound\<close>, the
  chain is created, the second \<open>file_open\<close> gives the descriptor \<open>fdv\<close>, and
  \<open>file_write\<close> is answered with \<open>w\<close>.
\<close>

definition put_talk ::
  "string \<Rightarrow> options \<Rightarrow> string \<Rightarrow> PcloudFileMetadata \<Rightarrow> level list \<Rightarrow> int option \<Rightarrow> string
     \<Rightarrow> response option outcome \<Rightarrow> talk" where
  "put_talk pth opts d0 m0 lv fdv content w =
     (openCall pth opts, answers FileNotFound)
     # chain_talk d0 m0 lv
     @ [(openCall pth opts, opens fdv), (writeCall fdv content opts, \<lambda>r. r = w)]"

definition put_calls ::
  "string \<Rightarrow> options \<Rightarrow> string \<Rightarrow> PcloudFileMetadata \<Rightarrow> level list \<Rightarrow> int option \<Rightarrow> string \<Rightarrow> call list" where
  "put_calls pth opts d0 m0 lv fdv content =
     openCall pth opts # map fst (chain_talk d0 m0 lv) @ [openCall pth opts, writeCall fdv content opts]"

subsection \<open>Example inputs\<close>

text \<open>
  An instance of the parameters: connection resets are retryable, \<open>Number\<close> reads two
  numerals, \<open>moment\<close> parses one date, and \<open>dirname\<close> and \<open>basename\<close> cut a path at
  its last \<open>/\<close> and throw on the empty path.
\<close>

definition example_deps :: deps where
  "example_deps =
     \<lparr>fetchRequestCanBeRetried = (\<lambda>e. code_of e = Some ''ECONNRESET''),
      Number = (\<lambda>s. if s = ''30'' then Some 30 else if s = ''1000'' then Some 1000 else None),
      stringify = (\<lambda>q. concat (map (\<lambda>(k, v). k @ ''=&'') q)),
      momentFormatX =
        (\<lambda>s. if s = Some ''Thu, 01 Jan 1970 00:00:01 +0000'' then ''1000'' else ''Invalid date''),
      dirname =
        (\<lambda>p. if p = [] then Raise (Error ''Path is empty'' None)
             else Return (rev (tl (dropWhile (\<lambda>c. c \<noteq> CHR ''/'') (rev p))))),
      basename =
        (\<lambda>p. if p = [] then Raise (Error ''Path is empty'' None)
             else Return (rev (takeWhile (\<lambda>c. c \<noteq> CHR ''/'') (rev p))))\<rparr>"

definition example_auth :: PcloudAuth where
  "example_auth =
     \<lparr>access_token = ''t0'', token_type = ''bearer'', userid = 1, locationid = 2,
      hostname = ''eapi.pcloud.com''\<rparr>"

text \<open>A failed response with the error code \<open>c\<close> and the \<open>retry-after\<close> values \<open>hs\<close>.\<close>

definition failure :: "string \<Rightarrow> string list \<Rightarrow> response" where
  "failure c hs =
     \<lparr>ok = False, parsed_error = Some (ErrorField ''failed'' (Some c)), json = None,
      retry_after = Some hs\<rparr>"

text \<open>
  A successful response whose body has the result code \<open>c\<close>, the metadata \<open>m\<close> and the
  descriptor \<open>f\<close>.
\<close>

definition success :: "int \<Rightarrow> PcloudFileMetadata option \<Rightarrow> int option \<Rightarrow> response" where
  "success c m f =
     \<lparr>ok = True, parsed_error = None,
      json = Some \<lparr>result = c, error_text = (if c = 0 then None else Some ''failed''),
                   metadata = m, fd = f\<rparr>,
      retry_after = Some []\<rparr>"

text \<open>A folder's metadata, with its name and folder identifier.\<close>

definition folder :: "string \<Rightarrow> int \<Rightarrow> PcloudFileMetadata" where
  "folder nm fid =
     PcloudFileMetadata (Some nm) (Some True) None (Some ''Thu, 01 Jan 1970 00:00:01 +0000'')
       (Some ''Thu, 01 Jan 1970 00:00:01 +0000'') (Some fid) None"

text \<open>
  An \<open>exec\<close> that answers the calls it gets from a list of replies, in order, and throws
  when the list is used up.
\<close>

definition scripted :: "response option outcome list api" where
  "scripted c s = (case s of [] \<Rightarrow> (Raise (Error ''no reply'' None), []) | r # rs \<Rightarrow> (r, rs))"

section \<open>The retry loop\<close>

lemma emit_emit: "emit es (emit fs x) = emit (es @ fs) x"
  by (cases x) simp

lemma emit_Nil: "emit [] x = x"
  by (cases x) simp

lemma throttled_step:
  assumes "i < 5" and "throttled d r n"
  shows "exec_loop d t m url i (Responds r # rest)
           = emit [Request t, Sleep n] (exec_loop d t m url i rest)"
  using assms
  by (cases "exec_loop d t m url i rest")
     (auto simp: throttled_def retryAfterSeconds_def Let_def split: option.splits list.splits)

lemma throttled_run:
  assumes "i < 5" and "\<forall>(r, n) \<in> set rs. throttled d r n"
  shows "exec_loop d t m url i (map Responds (map fst rs) @ rest)
           = emit (concat (map (\<lambda>(r, n). [Request t, Sleep n]) rs)) (exec_loop d t m url i rest)"
  using assms
proof (induction rs)
  case Nil
  then show ?case by (simp add: emit_Nil)
next
  case (Cons a rs)
  obtain r n where a: "a = (r, n)" by (cases a)
  from Cons.prems a have th: "throttled d r n" by simp
  from Cons.prems have "\<forall>(r, n) \<in> set rs. throttled d r n" by simp
  note IH = Cons.IH [OF Cons.prems(1) this]
  show ?case
    using throttled_step [OF Cons.prems(1) th] IH a by (simp add: emit_emit)
qed

lemma retry_step:
  assumes "i < 5" and "ordinaryRetryable d out"
  shows "exec_loop d t m url i (out # rest)
           = emit [Request t, Sleep ((i + 1) * 5)] (exec_loop d t m url (i + 1) rest)"
  using assms
  by (cases "exec_loop d t m url (i + 1) rest")
     (auto simp: ordinaryRetryable_def retryAfterSeconds_def Let_def
           split: option.splits list.splits fetch_outcome.splits)

lemma exec_loop_exhausted:
  "exec_loop d t m url 5 rest = (Some (Raise (exhausted m url)), [], rest)"
  by (cases rest) simp_all

lemma exec_loop_success:
  assumes "i < 5" and "ok r"
  shows "exec_loop d t m url i (Responds r # rest) = (Some (Return (Some r)), [Request t], rest)"
  using assms by simp

lemma exec_loop_delete_itemNotFound:
  assumes "i < 5" and "itemNotFound r"
  shows "exec_loop d t ''DELETE'' url i (Responds r # rest) = (Some (Return None), [Request t], rest)"
  using assms
  by (auto simp: itemNotFound_def retryAfterSeconds_def Let_def split: option.splits)


text \<open>
  Claim C1. A rate-limit reply (\<open>activityLimitReached\<close>) that carries a numeric
  \<open>retry-after\<close> of \<open>n\<close> seconds makes the loop sleep exactly \<open>n\<close> seconds and go on
  with the same value of the attempt counter: after any run \<open>rs\<close> of such replies the loop
  is where it was, with one request and one sleep of the advertised length per reply. So
  a call that gets such replies, five or any other number of them, and then a success
  returns that success.
\<close>

theorem exec_rate_limit_not_counted:
  assumes "\<forall>(r, n) \<in> set rs. throttled d r n"
  shows "(\<forall>i rest. i < 5 \<longrightarrow>
            exec_loop d t m url i (map Responds (map fst rs) @ rest)
              = emit (concat (map (\<lambda>(r, n). [Request t, Sleep n]) rs))
                  (exec_loop d t m url i rest))
         \<and> (\<forall>r' rest. ok r' \<longrightarrow>
              exec d (Some a) m cmd q dat opts (map Responds (map fst rs) @ Responds r' # rest)
                = (Some (Return (Some r')),
                   concat (map (\<lambda>(r, n). [Request (transport_of m opts), Sleep n]) rs)
                     @ [Request (transport_of m opts)],
                   rest))"
proof (intro conjI allI impI)
  fix i :: int and rest
  assume "i < 5"
  then show "exec_loop d t m url i (map Responds (map fst rs) @ rest)
              = emit (concat (map (\<lambda>(r, n). [Request t, Sleep n]) rs))
                  (exec_loop d t m url i rest)"
    using assms by (rule throttled_run)
next
  fix r' :: response and rest :: "fetch_outcome list"
  assume k: "ok r'"
  have z: "(0::int) < 5" by simp
  have "exec_loop d (transport_of m opts) m (apiUrl a cmd (stringify d q)) 0
          (map Responds (map fst rs) @ Responds r' # rest)
        = emit (concat (map (\<lambda>(r, n). [Request (transport_of m opts), Sleep n]) rs))
            (exec_loop d (transport_of m opts) m (apiUrl a cmd (stringify d q)) 0
               (Responds r' # rest))"
    using z assms by (rule throttled_run)
  also have "\<dots> = (Some (Return (Some r')),
                   concat (map (\<lambda>(r, n). [Request (transport_of m opts), Sleep n]) rs)
                     @ [Request (transport_of m opts)],
                   rest)"
    by (simp add: exec_loop_success [OF z k] del: exec_loop.simps)
  finally show "exec d (Some a) m cmd q dat opts (map Responds (map fst rs) @ Responds r' # rest)
                = (Some (Return (Some r')),
                   concat (map (\<lambda>(r, n). [Request (transport_of m opts), Sleep n]) rs)
                     @ [Request (transport_of m opts)],
                   rest)"
    by (simp add: exec_def del: exec_loop.simps)
qed

theorem exec_rate_limit_not_counted_witness:
  "throttled example_deps (failure ''activityLimitReached'' [''30'']) 30
   \<and> exec example_deps (Some example_auth) ''GET'' ''stat'' [(''path'', QStr ''/a'')] None None
       [Responds (failure ''activityLimitReached'' [''30'']),
        Responds (failure ''activityLimitReached'' [''30'']),
        Responds (failure ''activityLimitReached'' [''30'']),
        Responds (failure ''activityLimitReached'' [''30'']),
        Responds (failure ''activityLimitReached'' [''30'']),
        Responds (success 0 None None)]
     = (Some (Return (Some (success 0 None None))),
        [Request fetch, Sleep 30, Request fetch, Sleep 30, Request fetch, Sleep 30,
         Request fetch, Sleep 30, Request fetch, Sleep 30, Request fetch],
        [])"
proof -
  have t: "throttled example_deps (failure ''activityLimitReached'' [''30'']) 30"
    by (simp add: throttled_def failure_def example_deps_def)
  have k: "ok (success 0 None None)"
    by (simp add: success_def)
  have h: "\<forall>(r, n) \<in> set (replicate 5 (failure ''activityLimitReached'' [''30''], 30::int)).
             throttled example_deps r n"
    using t by simp
  have e: "replicate 5 x = [x, x, x, x, x]" for x :: "response \<times> int"
    by (simp add: numeral_eq_Suc)
  from exec_rate_limit_not_counted [OF h, of fetch "''GET''" "[]" example_auth "''stat''"
      "[(''path'', QStr ''/a'')]" None None]
  have "exec example_deps (Some example_auth) ''GET'' ''stat'' [(''path'', QStr ''/a'')] None None
          (map Responds (map fst (replicate 5 (failure ''activityLimitReached'' [''30''], 30::int)))
             @ Responds (success 0 None None) # [])
        = (Some (Return (Some (success 0 None None))),
           concat (map (\<lambda>(r, n). [Request (transport_of ''GET'' None), Sleep n])
                    (replicate 5 (failure ''activityLimitReached'' [''30''], 30)))
             @ [Request (transport_of ''GET'' None)],
           [])"
    using k by blast
  then show ?thesis
    using t by (simp add: e transport_of_def del: exec_loop.simps)
qed

text \<open>
  Claim C2. An ordinary retryable failure at attempt \<open>i\<close>, counted from 0, is followed
  by a sleep of exactly \<open>(i + 1) * 5\<close> seconds and the next attempt; a call that meets
  five of them in a row sleeps 5, 10, 15, 20 and 25 seconds and then throws the error
  whose message names the method and the URL, whatever the transport would have answered
  next.
\<close>

theorem exec_linear_backoff_then_exhausted:
  "(\<forall>i out rest. i < 5 \<and> ordinaryRetryable d out \<longrightarrow>
      exec_loop d t m url i (out # rest)
        = emit [Request t, Sleep ((i + 1) * 5)] (exec_loop d t m url (i + 1) rest))
   \<and> (\<forall>outs rest. length outs = 5 \<and> (\<forall>out \<in> set outs. ordinaryRetryable d out) \<longrightarrow>
        exec d (Some a) m cmd q dat opts (outs @ rest)
          = (Some (Raise (Error (''Could not execute request after multiple attempts: '' @ m
                                  @ '' '' @ apiUrl a cmd (stringify d q)) None)),
             [Request (transport_of m opts), Sleep 5, Request (transport_of m opts), Sleep 10,
              Request (transport_of m opts), Sleep 15, Request (transport_of m opts), Sleep 20,
              Request (transport_of m opts), Sleep 25],
             rest))"
proof (intro conjI allI impI)
  fix i :: int and out rest
  assume "i < 5 \<and> ordinaryRetryable d out"
  then show "exec_loop d t m url i (out # rest)
        = emit [Request t, Sleep ((i + 1) * 5)] (exec_loop d t m url (i + 1) rest)"
    by (simp add: retry_step del: exec_loop.simps)
next
  fix outs rest
  assume h: "length outs = 5 \<and> (\<forall>out \<in> set outs. ordinaryRetryable d out)"
  then obtain o1 o2 o3 o4 o5 where outs: "outs = [o1, o2, o3, o4, o5]"
    by (auto simp: length_Suc_conv numeral_eq_Suc)
  with h have r: "ordinaryRetryable d o1" "ordinaryRetryable d o2" "ordinaryRetryable d o3"
      "ordinaryRetryable d o4" "ordinaryRetryable d o5"
    by simp_all
  show "exec d (Some a) m cmd q dat opts (outs @ rest)
          = (Some (Raise (Error (''Could not execute request after multiple attempts: '' @ m
                                  @ '' '' @ apiUrl a cmd (stringify d q)) None)),
             [Request (transport_of m opts), Sleep 5, Request (transport_of m opts), Sleep 10,
              Request (transport_of m opts), Sleep 15, Request (transport_of m opts), Sleep 20,
              Request (transport_of m opts), Sleep 25],
             rest)"
    using r
    by (simp add: outs exec_def retry_step exec_loop_exhausted exhausted_def
          del: exec_loop.simps)
qed

theorem exec_linear_backoff_then_exhausted_witness:
  "exec example_deps (Some example_auth) ''GET'' ''stat'' [(''path'', QStr ''/a'')] None None
     [Throws (Error ''socket hang up'' (Some ''ECONNRESET'')),
      Responds \<lparr>ok = False, parsed_error = None, json = None, retry_after = Some []\<rparr>,
      Responds (failure ''generalException'' []),
      Responds (failure ''EAGAIN'' []),
      Responds (failure ''resourceModified'' []),
      Responds (success 0 None None)]
   = (Some (Raise (Error
        ''Could not execute request after multiple attempts: GET https://eapi.pcloud.com/stat?path=&''
        None)),
      [Request fetch, Sleep 5, Request fetch, Sleep 10, Request fetch, Sleep 15,
       Request fetch, Sleep 20, Request fetch, Sleep 25],
      [Responds (success 0 None None)])"
proof -
  let ?outs = "[Throws (Error ''socket hang up'' (Some ''ECONNRESET'')),
      Responds \<lparr>ok = False, parsed_error = None, json = None, retry_after = Some []\<rparr>,
      Responds (failure ''generalException'' []),
      Responds (failure ''EAGAIN'' []),
      Responds (failure ''resourceModified'' [])]"
  have h: "length ?outs = 5 \<and> (\<forall>out \<in> set ?outs. ordinaryRetryable example_deps out)"
    by (simp add: ordinaryRetryable_def failure_def example_deps_def)
  from exec_linear_backoff_then_exhausted [of example_deps fetch "''GET''" "[]" example_auth
      "''stat''" "[(''path'', QStr ''/a'')]" None None]
  have "exec example_deps (Some example_auth) ''GET'' ''stat'' [(''path'', QStr ''/a'')] None None
          (?outs @ [Responds (success 0 None None)])
        = (Some (Raise (Error (''Could not execute request after multiple attempts: '' @ ''GET''
                                  @ '' '' @ apiUrl example_auth ''stat''
                                     (stringify example_deps [(''path'', QStr ''/a'')])) None)),
             [Request (transport_of ''GET'' None), Sleep 5, Request (transport_of ''GET'' None), Sleep 10,
              Request (transport_of ''GET'' None), Sleep 15, Request (transport_of ''GET'' None), Sleep 20,
              Request (transport_of ''GET'' None), Sleep 25],
             [Responds (success 0 None None)])"
    using h by blast
  then show ?thesis
    by (simp add: transport_of_def apiUrl_def example_auth_def example_deps_def
          del: exec_loop.simps)
qed

section \<open>The driver\<close>

lemma body_isD:
  assumes "body_is Q r"
  obtains resp j where "r = Return (Some resp)" and "json resp = Some j" and "Q j"
  using assms by (auto simp: body_is_def split: outcome.splits option.splits)

lemma api_exec_calls: "snd (snd (api_exec api c (s, calls))) = calls @ [c]"
  by (simp split: prod.splits)

lemma delete_calls: "snd (snd (delete api pth (s, calls))) = calls @ [deleteCall pth]"
proof -
  obtain r s' where a: "api (deleteCall pth) s = (r, s')" by (cases "api (deleteCall pth) s")
  then show ?thesis
    by (cases r; cases "response_json (case r of Return x \<Rightarrow> x)")
       (simp_all add: delete_def deleteCall_def Let_def)
qed

lemma delete_not_ok:
  assumes "api (deleteCall pth) s = (r, s')" and "reports c r" and "c \<noteq> Ok"
  shows "\<exists>e. delete api pth (s, calls) = (Raise e, (s', calls @ [deleteCall pth]))"
proof -
  from assms(2) obtain resp j where "r = Return (Some resp)" "json resp = Some j" "result j = c"
    unfolding reports_def by (rule body_isD)
  with assms(1,3) show ?thesis
    by (simp add: delete_def deleteCall_def Let_def)
qed

lemma exec_loop_itemNotFound_other:
  assumes "i < 5" and "itemNotFound r" and "m \<noteq> ''DELETE''"
  shows "\<exists>e. exec_loop d t m url i (Responds r # rest) = (Some (Raise e), [Request t], rest)"
  using assms
  by (auto simp: itemNotFound_def retryAfterSeconds_def Let_def split: option.splits)

text \<open>
  Claim C7. In the client's loop a failed response with the error code \<open>itemNotFound\<close>
  ends a \<open>DELETE\<close> request with a bare return, no response and no error, while the same
  response to a \<open>GET\<close> request is thrown. The driver's \<open>delete\<close> makes one call, a
  \<open>GET\<close> of \<open>deletefile\<close>, and raises whenever the reply's result code is not \<open>Ok\<close>.
\<close>

theorem delete_not_found_by_layer:
  "(\<forall>i r rest. i < 5 \<and> itemNotFound r \<longrightarrow>
      exec_loop d t ''DELETE'' url i (Responds r # rest) = (Some (Return None), [Request t], rest))
   \<and> (\<forall>i r rest. i < 5 \<and> itemNotFound r \<longrightarrow>
        (\<exists>e. exec_loop d t ''GET'' url i (Responds r # rest) = (Some (Raise e), [Request t], rest)))
   \<and> (\<forall>(api :: 's api) pth s calls.
        snd (snd (delete api pth (s, calls))) = calls @ [deleteCall pth]
        \<and> method_of (deleteCall pth) = ''GET'')
   \<and> (\<forall>(api :: 's api) pth s calls r s' c.
        api (deleteCall pth) s = (r, s') \<and> reports c r \<and> c \<noteq> Ok \<longrightarrow>
          raises (fst (delete api pth (s, calls)))
          \<and> snd (delete api pth (s, calls)) = (s', calls @ [deleteCall pth]))"
proof (intro conjI allI impI)
  fix i :: int and r rest
  assume "i < 5 \<and> itemNotFound r"
  then show "exec_loop d t ''DELETE'' url i (Responds r # rest)
               = (Some (Return None), [Request t], rest)"
    by (simp add: exec_loop_delete_itemNotFound del: exec_loop.simps)
next
  fix i :: int and r rest
  assume h: "i < 5 \<and> itemNotFound r"
  have "''GET'' \<noteq> ''DELETE''" by simp
  with h show "\<exists>e. exec_loop d t ''GET'' url i (Responds r # rest)
                 = (Some (Raise e), [Request t], rest)"
    by (intro exec_loop_itemNotFound_other) simp_all
next
  fix api :: "'s api" and pth s calls
  show "snd (snd (delete api pth (s, calls))) = calls @ [deleteCall pth]"
    by (rule delete_calls)
  show "method_of (deleteCall pth) = ''GET''"
    by (simp add: deleteCall_def)
next
  fix api :: "'s api" and pth s calls r s' c
  assume h: "api (deleteCall pth) s = (r, s') \<and> reports c r \<and> c \<noteq> Ok"
  from h have "\<exists>e. delete api pth (s, calls) = (Raise e, (s', calls @ [deleteCall pth]))"
    by (intro delete_not_ok [where r = r and c = c]) simp_all
  then obtain e where e: "delete api pth (s, calls) = (Raise e, (s', calls @ [deleteCall pth]))" ..
  from e show "raises (fst (delete api pth (s, calls)))" by simp
  from e show "snd (delete api pth (s, calls)) = (s', calls @ [deleteCall pth])" by simp
qed

theorem delete_not_found_by_layer_witness:
  "exec_loop example_deps fetch ''DELETE'' ''https://eapi.pcloud.com/deletefile?'' 0
     [Responds (failure ''itemNotFound'' [])]
     = (Some (Return None), [Request fetch], [])
   \<and> delete scripted ''a.md'' ([Return (Some (success 2009 None None))], [])
     = (Raise (Error ''Could not delete file: /a.md. Cause: failed'' None), ([], [deleteCall ''a.md'']))"
proof -
  have a: "(0::int) < 5 \<and> itemNotFound (failure ''itemNotFound'' [])"
    by (simp add: itemNotFound_def failure_def)
  have b: "scripted (deleteCall ''a.md'') [Return (Some (success 2009 None None))]
             = (Return (Some (success 2009 None None)), [])
           \<and> reports 2009 (Return (Some (success 2009 None None))) \<and> 2009 \<noteq> Ok"
    by (simp add: scripted_def reports_def body_is_def success_def Ok_def)
  note th = delete_not_found_by_layer [where 's = "response option outcome list",
      of example_deps fetch "''https://eapi.pcloud.com/deletefile?''"]
  have 1: "exec_loop example_deps fetch ''DELETE'' ''https://eapi.pcloud.com/deletefile?'' 0
     [Responds (failure ''itemNotFound'' [])] = (Some (Return None), [Request fetch], [])"
    by (rule th [THEN conjunct1, rule_format, OF a])
  have 2: "raises (fst (delete scripted ''a.md'' ([Return (Some (success 2009 None None))], [])))"
    by (rule th [THEN conjunct2, THEN conjunct2, THEN conjunct2, rule_format, where api = scripted, OF b,
          THEN conjunct1])
  have 3: "delete scripted ''a.md'' ([Return (Some (success 2009 None None))], [])
     = (Raise (Error ''Could not delete file: /a.md. Cause: failed'' None), ([], [deleteCall ''a.md'']))"
    by (simp add: delete_def deleteCall_def scripted_def success_def Ok_def makePath_def)
  from 1 2 3 show ?thesis by simp
qed

lemma makePath_idem: "makePath (makePath pth) = makePath pth"
  by (simp add: makePath_def split: list.splits)

lemma converses_Cons:
  "converses api s ((c, P) # xs) s' = (\<exists>r s1. api c s = (r, s1) \<and> P r \<and> converses api s1 xs s')"
  by (cases "api c s") simp

lemma converses_append:
  "converses api s (xs @ ys) s' = (\<exists>s1. converses api s xs s1 \<and> converses api s1 ys s')"
  by (induction xs arbitrary: s) (auto split: prod.splits)

lemma fileExists_reply:
  assumes "api (existsCall pth) s = (r, s1)" and "reports c r" and "c = Ok \<or> c = ParentNotFound"
  shows "fileExists api pth (s, calls) = (Return (c = Ok), (s1, calls @ [existsCall pth]))"
proof -
  from assms(2) obtain resp j where "r = Return (Some resp)" "json resp = Some j" "result j = c"
    unfolding reports_def by (rule body_isD)
  with assms(1,3) show ?thesis
    by (auto simp: fileExists_def existsCall_def)
qed

lemma statRaw_found:
  assumes "api (lookupCall pth) s = (r, s1)"
    and "found pth m r"
  shows "statRaw api pth (s, calls) = (Return (Some m), (s1, calls @ [lookupCall pth]))"
proof -
  from assms(2) obtain resp j where "r = Return (Some resp)" "json resp = Some j"
      "(pth = [] \<or> result j = Ok) \<and> metadata j = Some m"
    unfolding found_def by (rule body_isD)
  with assms(1) show ?thesis
    by (cases "pth = []")
       (simp_all add: statRaw_def rootFolderMetadata_def execJson_def lookupCall_def)
qed

lemma statRaw_missing:
  assumes "api (lookupCall pth) s = (r, s1)"
    and "notFound r"
  shows "statRaw api pth (s, calls) = (Return None, (s1, calls @ [lookupCall pth]))"
proof -
  from assms(2) obtain resp j where "r = Return (Some resp)" "json resp = Some j"
      "result j = FileNotFound \<and> metadata j = None"
    unfolding notFound_def by (rule body_isD)
  with assms(1) show ?thesis
    by (cases "pth = []")
       (simp_all add: statRaw_def rootFolderMetadata_def execJson_def lookupCall_def Ok_def
          FileNotFound_def)
qed

lemma execCreateDir_created:
  assumes "api (createCall f nm) s = (r, s1)" and "carries Ok m r"
  shows "execCreateDir api nm f (s, calls) = (Return (Some m), (s1, calls @ [createCall f nm]))"
proof -
  from assms(2) obtain resp j where "r = Return (Some resp)" "json resp = Some j"
      "result j = Ok \<and> metadata j = Some m"
    unfolding carries_def by (auto elim: body_isD)
  with assms(1) show ?thesis
    by (simp add: execCreateDir_def createCall_def)
qed


lemma createDirRecursively_chain:
  assumes "chain_ok d d0 lv" and "lv \<noteq> []" and "converses api s (chain_talk d0 m0 lv) s'"
    and "length lv \<le> fuel"
  shows "createDirRecursively fuel d api (fst (hd lv)) (s, calls)
           = Some (Return (Some (snd (snd (hd lv)))), (s', calls @ map fst (chain_talk d0 m0 lv)))"
  using assms
proof (induction d0 m0 lv arbitrary: fuel s s' calls rule: chain_talk.induct)
  case (1 d0 m0)
  then show ?case by simp
next
  case (2 d0 m0 dir nm md)
  from "2.prems"(4) obtain f where fuel: "fuel = Suc f" by (cases fuel) auto
  from "2.prems"(3) obtain r1 s1 r2 s2 r3 where
    a1: "api (existsCall d0) s = (r1, s1)" and p1: "reports Ok r1" and
    a2: "api (lookupCall d0) s1 = (r2, s2)" and p2: "found d0 m0 r2" and
    a3: "api (createCall (folderid m0) nm) s2 = (r3, s')" and p3: "carries Ok md r3"
    by (auto simp: converses_Cons simp del: converses.simps(2))
  have e: "fileExists api d0 (s, cs) = (Return True, (s1, cs @ [existsCall d0]))" for cs
    using fileExists_reply [where api = api, OF a1 p1] by simp
  have l: "statRaw api d0 (s1, cs) = (Return (Some m0), (s2, cs @ [lookupCall d0]))" for cs
    by (rule statRaw_found [where api = api, OF a2 p2])
  have c: "execCreateDir api nm (folderid m0) (s2, cs)
             = (Return (Some md), (s', cs @ [createCall (folderid m0) nm]))" for cs
    by (rule execCreateDir_created [where api = api, OF a3 p3])
  from "2.prems"(1) show ?case
    by (simp add: fuel e l c)
next
  case (3 d0 m0 dir nm md dir' nm' md' ls)
  from "3.prems"(4) obtain f where fuel: "fuel = Suc f" and f: "length ((dir', nm', md') # ls) \<le> f"
    by (cases fuel) auto
  from "3.prems"(3) obtain r1 s1 s2 r3 where
    a1: "api (existsCall dir') s = (r1, s1)" and p1: "reports ParentNotFound r1" and
    t: "converses api s1 (chain_talk d0 m0 ((dir', nm', md') # ls)) s2" and
    a3: "api (createCall (folderid md') nm) s2 = (r3, s')" and p3: "carries Ok md r3"
    by (auto simp: converses_Cons converses_append simp del: converses.simps(2))
  from "3.prems"(1) have ok': "chain_ok d d0 ((dir', nm', md') # ls)" by simp
  have e: "fileExists api dir' (s, cs) = (Return False, (s1, cs @ [existsCall dir']))" for cs
    using fileExists_reply [where api = api, OF a1 p1] by (simp add: Ok_def ParentNotFound_def)
  have r: "createDirRecursively f d api dir' (s1, cs)
             = Some (Return (Some md'),
                 (s2, cs @ map fst (chain_talk d0 m0 ((dir', nm', md') # ls))))" for cs
    using "3.IH" [OF ok' _ t f] by simp
  have c: "execCreateDir api nm (folderid md') (s2, cs)
             = (Return (Some md), (s', cs @ [createCall (folderid md') nm]))" for cs
    by (rule execCreateDir_created [where api = api, OF a3 p3])
  from "3.prems"(1) show ?case
    by (simp add: fuel e r c)
qed

lemma calls_of_chain_talk:
  "calls_of ''createfolderifnotexists'' (map fst (chain_talk d0 m0 lv)) = length lv"
  by (induction d0 m0 lv rule: chain_talk.induct)
     (simp_all add: calls_of_def existsCall_def lookupCall_def createCall_def)

lemma opensD:
  assumes "opens fdv r"
  obtains resp j where "r = Return (Some resp)" and "ok resp" and "json resp = Some j"
    and "result j = Ok" and "fd j = fdv"
  using assms by (auto simp: opens_def split: outcome.splits option.splits)

lemma answersD:
  assumes "answers c r"
  obtains resp j where "r = Return (Some resp)" and "ok resp" and "json resp = Some j"
    and "result j = c"
  using assms by (auto simp: answers_def split: outcome.splits option.splits)

lemma put_options_idem [simp]: "put_options (Some (put_options popts)) = put_options popts"
  by (simp add: put_options_def)

lemma put_opened:
  assumes "source (put_options popts) \<noteq> Some ''file''"
    and "api (openCall pth (put_options popts)) s = (r, s1)" and "opens fdv r"
    and "api (writeCall fdv content (put_options popts)) s1 = (w, s2)"
  shows "put (Suc fuel) d api pth content popts (s, calls)
           = Some (w, (s2, calls @ [openCall pth (put_options popts),
                                    writeCall fdv content (put_options popts)]))"
proof -
  from assms(3) obtain resp j where "r = Return (Some resp)" "ok resp" "json resp = Some j"
      "result j = Ok" "fd j = fdv"
    by (rule opensD)
  with assms(1,2,4) show ?thesis
    by (simp add: put_options_def [symmetric] openCall_def writeCall_def Let_def)
qed

lemma put_open_missing:
  assumes "source (put_options popts) \<noteq> Some ''file''"
    and "api (openCall pth (put_options popts)) s = (r, s1)" and "answers FileNotFound r"
    and "dirname d (makePath pth) = Return parentDir"
    and "createDirRecursively fuel d api parentDir (s1, calls @ [openCall pth (put_options popts)])
           = Some (Return x, st2)"
  shows "put (Suc fuel) d api pth content popts (s, calls)
           = put fuel d api (makePath pth) content (Some (put_options popts)) st2"
proof -
  from assms(3) obtain resp j where "r = Return (Some resp)" "ok resp" "json resp = Some j"
      "result j = FileNotFound"
    by (rule answersD)
  with assms(1,2,4,5) show ?thesis
    by (simp add: put_options_def [symmetric] openCall_def Let_def Ok_def FileNotFound_def)
qed

lemma filter_chain_talk:
  "filter (\<lambda>c. command_of c = ''createfolderifnotexists'') (map fst (chain_talk d0 m0 lv))
     = creations m0 lv"
  by (induction d0 m0 lv rule: chain_talk.induct)
     (simp_all add: existsCall_def lookupCall_def createCall_def)

lemma length_creations: "length (creations m0 lv) = length lv"
  by (induction m0 lv rule: creations.induct) simp_all

lemma calls_of_open_chain_talk:
  "calls_of ''file_open'' (map fst (chain_talk d0 m0 lv)) = 0"
  by (induction d0 m0 lv rule: chain_talk.induct)
     (simp_all add: calls_of_def existsCall_def lookupCall_def createCall_def)

text \<open>
  Claim C3. A \<open>put\<close> on the in-memory path (\<open>options.source\<close> is not \<open>file\<close>) whose
  \<open>file_open\<close> answers \<open>FileNotFound\<close> while the \<open>k\<close> directories of the chain \<open>lv\<close>
  above the file are missing makes exactly \<open>k\<close> \<open>createfolderifnotexists\<close> calls, one
  per missing directory, each with that directory's final component and the folder
  identifier of the directory just above it, then runs the whole \<open>put\<close> once more: two
  \<open>file_open\<close> calls in all, and the result is the answer to \<open>file_write\<close>. A bound
  on the depth of recursion above \<open>k\<close> suffices for the call to return.
\<close>

theorem put_creates_missing_chain:
  assumes "source (put_options popts) \<noteq> Some ''file''"
    and "lv \<noteq> []" and "chain_ok d d0 lv"
    and "dirname d (makePath pth) = Return (fst (hd lv))"
    and "length lv < fuel"
    and "converses api s (put_talk pth (put_options popts) d0 m0 lv fdv content w) s'"
  shows "put fuel d api pth content popts (s, calls)
           = Some (w, (s', calls @ put_calls pth (put_options popts) d0 m0 lv fdv content))
         \<and> filter (\<lambda>c. command_of c = ''createfolderifnotexists'')
              (put_calls pth (put_options popts) d0 m0 lv fdv content) = creations m0 lv
         \<and> length (creations m0 lv) = length lv
         \<and> calls_of ''file_open'' (put_calls pth (put_options popts) d0 m0 lv fdv content) = 2"
proof -
  let ?opts = "put_options popts"
  from assms(2) have "Suc 0 \<le> length lv" by (cases lv) simp_all
  with assms(5) have "Suc (Suc 0) \<le> fuel" by arith
  then obtain f where fuel: "fuel = Suc (Suc f)"
    by (cases fuel) (auto simp: Suc_le_eq gr0_conv_Suc)
  with assms(5) have f: "length lv \<le> Suc f" by arith
  from assms(6) obtain r1 s1 s2 r2 s3 where
    a1: "api (openCall pth ?opts) s = (r1, s1)" and p1: "answers FileNotFound r1" and
    t: "converses api s1 (chain_talk d0 m0 lv) s2" and
    a2: "api (openCall pth ?opts) s2 = (r2, s3)" and p2: "opens fdv r2" and
    a3: "api (writeCall fdv content ?opts) s3 = (w, s')"
    by (auto simp: put_talk_def converses_Cons converses_append simp del: converses.simps(2))
  have c: "createDirRecursively (Suc f) d api (fst (hd lv)) (s1, calls @ [openCall pth ?opts])
             = Some (Return (Some (snd (snd (hd lv)))),
                 (s2, (calls @ [openCall pth ?opts]) @ map fst (chain_talk d0 m0 lv)))"
    by (rule createDirRecursively_chain [OF assms(3) assms(2) t f])
  have "put fuel d api pth content popts (s, calls)
          = put (Suc f) d api (makePath pth) content (Some ?opts)
              (s2, (calls @ [openCall pth ?opts]) @ map fst (chain_talk d0 m0 lv))"
    unfolding fuel
    by (rule put_open_missing [where api = api, OF assms(1) a1 p1 assms(4) c])
  also have "\<dots> = Some (w, (s', ((calls @ [openCall pth ?opts]) @ map fst (chain_talk d0 m0 lv))
                      @ [openCall (makePath pth) (put_options (Some ?opts)),
                         writeCall fdv content (put_options (Some ?opts))]))"
    by (rule put_opened [where api = api])
       (use assms(1) a2 p2 a3 in \<open>simp_all add: openCall_def makePath_idem\<close>)
  finally have 1: "put fuel d api pth content popts (s, calls)
           = Some (w, (s', calls @ put_calls pth ?opts d0 m0 lv fdv content))"
    by (simp add: put_calls_def openCall_def makePath_idem)
  have 2: "filter (\<lambda>c. command_of c = ''createfolderifnotexists'')
              (put_calls pth ?opts d0 m0 lv fdv content) = creations m0 lv"
    by (simp add: put_calls_def filter_chain_talk) (simp add: openCall_def writeCall_def)
  have 3: "calls_of ''file_open'' (put_calls pth ?opts d0 m0 lv fdv content) = 2"
    using calls_of_open_chain_talk [of d0 m0 lv]
    by (simp add: put_calls_def calls_of_def openCall_def writeCall_def)
  from 1 2 3 length_creations show ?thesis by simp
qed

theorem put_creates_missing_chain_witness:
  "put 3 example_deps scripted ''/a/b/c.txt'' ''hello'' None
     ([Return (Some (success 2002 None None)),
       Return (Some (success 2005 None None)),
       Return (Some (success 0 (Some (folder ''/'' 0)) None)),
       Return (Some (success 0 (Some (folder ''/'' 0)) None)),
       Return (Some (success 0 (Some (folder ''a'' 11)) None)),
       Return (Some (success 0 (Some (folder ''b'' 12)) None)),
       Return (Some (success 0 None (Some 7))),
       Return (Some (success 0 None None))], [])
   = Some (Return (Some (success 0 None None)),
       ([], [openCall ''/a/b/c.txt'' \<lparr>source = None, target = None\<rparr>,
             existsCall ''/a'', existsCall [], lookupCall [],
             createCall (Some 0) ''a'', createCall (Some 11) ''b'',
             openCall ''/a/b/c.txt'' \<lparr>source = None, target = None\<rparr>,
             writeCall (Some 7) ''hello'' \<lparr>source = None, target = None\<rparr>]))"
proof -
  let ?lv = "[(''/a/b'', ''b'', folder ''b'' 12), (''/a'', ''a'', folder ''a'' 11)]"
  let ?s = "[Return (Some (success 2002 None None)),
       Return (Some (success 2005 None None)),
       Return (Some (success 0 (Some (folder ''/'' 0)) None)),
       Return (Some (success 0 (Some (folder ''/'' 0)) None)),
       Return (Some (success 0 (Some (folder ''a'' 11)) None)),
       Return (Some (success 0 (Some (folder ''b'' 12)) None)),
       Return (Some (success 0 None (Some 7))),
       Return (Some (success 0 None None))]"
  have 1: "source (put_options None) \<noteq> Some ''file''"
    by (simp add: put_options_def)
  have 2: "?lv \<noteq> []" by simp
  have 3: "chain_ok example_deps [] ?lv"
    by (simp add: example_deps_def)
  have 4: "dirname example_deps (makePath ''/a/b/c.txt'') = Return (fst (hd ?lv))"
    by (simp add: example_deps_def makePath_def)
  have 5: "length ?lv < (3::nat)" by simp
  have 6: "converses scripted ?s
             (put_talk ''/a/b/c.txt'' (put_options None) [] (folder ''/'' 0) ?lv (Some 7) ''hello''
                (Return (Some (success 0 None None)))) []"
    by (simp add: put_talk_def scripted_def answers_def opens_def reports_def carries_def
          found_def body_is_def success_def folder_def Ok_def FileNotFound_def ParentNotFound_def)
  from put_creates_missing_chain [where api = scripted, OF 1 2 3 4 5 6, of "[]"]
  show ?thesis
    by (simp add: put_calls_def put_options_def folder_def)
qed

section \<open>Metadata and stat\<close>

text \<open>
  Claim C9. \<open>makeItem\<close> copies the record's name into \<open>path\<close> and its folder flag
  into \<open>isDir\<close>; for a record marked deleted it sets \<open>isDeleted\<close> and leaves both times
  out. Otherwise \<open>updated_time\<close> is the number that \<open>Number\<close> reads off the formatted
  date, while \<open>created_time\<close> is the formatted text itself: a string, not a number.
\<close>

theorem makeItem_created_time_is_text:
  "path (makeItem d m) = name m
   \<and> isDir (makeItem d m) = isfolder m
   \<and> (isdeleted m = Some True \<longrightarrow>
        isDeleted (makeItem d m) = Some True
        \<and> created_time (makeItem d m) = None \<and> updated_time (makeItem d m) = None)
   \<and> (isdeleted m \<noteq> Some True \<longrightarrow>
        isDeleted (makeItem d m) = None
        \<and> created_time (makeItem d m) = Some (JString (momentFormatX d (created m)))
        \<and> updated_time (makeItem d m)
            = Some (case Number d (momentFormatX d (modified m)) of
                      None \<Rightarrow> JNaN | Some n \<Rightarrow> JNumber n))"
  by (simp add: makeItem_def Let_def)

theorem makeItem_created_time_is_text_witness:
  "created_time (makeItem example_deps (folder ''a'' 11)) = Some (JString ''1000'')
   \<and> updated_time (makeItem example_deps (folder ''a'' 11)) = Some (JNumber 1000)"
proof -
  have "isdeleted (folder ''a'' 11) \<noteq> Some True"
    by (simp add: folder_def)
  with makeItem_created_time_is_text [of example_deps "folder ''a'' 11"]
  show ?thesis by (simp add: folder_def example_deps_def)
qed

lemma statRaw_not_ok:
  assumes "pth \<noteq> []" and "api (lookupCall pth) s = (r, s1)" and "reports c r"
    and "c \<noteq> Ok" and "c \<noteq> FileNotFound"
  shows "\<exists>e. statRaw api pth (s, calls) = (Raise e, (s1, calls @ [lookupCall pth]))"
proof -
  from assms(3) obtain resp j where "r = Return (Some resp)" "json resp = Some j" "result j = c"
    unfolding reports_def by (rule body_isD)
  with assms(1,2,4,5) show ?thesis
    by (simp add: statRaw_def lookupCall_def)
qed

lemma statRaw_root_no_metadata:
  assumes "api (lookupCall []) s = (r, s1)" and "body_is (\<lambda>j. result j = c \<and> metadata j = None) r"
  shows "statRaw api [] (s, calls) = (Return None, (s1, calls @ [lookupCall []]))"
proof -
  from assms(2) obtain resp j where "r = Return (Some resp)" "json resp = Some j"
      "result j = c \<and> metadata j = None"
    by (rule body_isD)
  with assms(1) show ?thesis
    by (simp add: statRaw_def rootFolderMetadata_def execJson_def lookupCall_def)
qed

text \<open>
  Claim C4. For the empty path \<open>stat\<close> asks for a shallow listing of \<open>/\<close> and does not
  read its result code: whatever code \<open>c\<close> the listing reports, a reply without metadata
  makes \<open>stat\<close> return null. For any other path a result code that is neither \<open>Ok\<close>
  nor \<open>FileNotFound\<close> makes \<open>stat\<close> raise.
\<close>

theorem stat_root_ignores_result_code:
  "(\<forall>(api :: 's api) s calls r s1 c.
      api (lookupCall []) s = (r, s1) \<and> body_is (\<lambda>j. result j = c \<and> metadata j = None) r \<longrightarrow>
        stat d api [] (s, calls) = (Return None, (s1, calls @ [lookupCall []])))
   \<and> (\<forall>(api :: 's api) pth s calls r s1 c.
        pth \<noteq> [] \<and> api (lookupCall pth) s = (r, s1) \<and> reports c r \<and> c \<noteq> Ok \<and> c \<noteq> FileNotFound \<longrightarrow>
          raises (fst (stat d api pth (s, calls))))"
proof (intro conjI allI impI)
  fix api :: "'s api" and s calls r s1 c
  assume "api (lookupCall []) s = (r, s1) \<and> body_is (\<lambda>j. result j = c \<and> metadata j = None) r"
  then have "statRaw api [] (s, calls) = (Return None, (s1, calls @ [lookupCall []]))"
    by (intro statRaw_root_no_metadata [where r = r and c = c]) simp_all
  then show "stat d api [] (s, calls) = (Return None, (s1, calls @ [lookupCall []]))"
    by (simp add: stat_def)
next
  fix api :: "'s api" and pth s calls r s1 c
  assume "pth \<noteq> [] \<and> api (lookupCall pth) s = (r, s1) \<and> reports c r \<and> c \<noteq> Ok \<and> c \<noteq> FileNotFound"
  then have "\<exists>e. statRaw api pth (s, calls) = (Raise e, (s1, calls @ [lookupCall pth]))"
    by (intro statRaw_not_ok [where r = r and c = c]) simp_all
  then show "raises (fst (stat d api pth (s, calls)))"
    by (auto simp: stat_def)
qed

theorem stat_root_ignores_result_code_witness:
  "stat example_deps scripted [] ([Return (Some (success 5000 None None))], [])
     = (Return None, ([], [lookupCall []]))
   \<and> raises (fst (stat example_deps scripted ''/a'' ([Return (Some (success 5000 None None))], [])))"
proof -
  have a: "scripted (lookupCall []) [Return (Some (success 5000 None None))]
             = (Return (Some (success 5000 None None)), [])
           \<and> body_is (\<lambda>j. result j = 5000 \<and> metadata j = None)
               (Return (Some (success 5000 None None)))"
    by (simp add: scripted_def body_is_def success_def)
  have b: "''/a'' \<noteq> [] \<and> scripted (lookupCall ''/a'') [Return (Some (success 5000 None None))]
             = (Return (Some (success 5000 None None)), [])
           \<and> reports 5000 (Return (Some (success 5000 None None)))
           \<and> 5000 \<noteq> Ok \<and> 5000 \<noteq> FileNotFound"
    by (simp add: scripted_def reports_def body_is_def success_def Ok_def FileNotFound_def)
  note th = stat_root_ignores_result_code [where 's = "response option outcome list",
      of example_deps]
  from th [THEN conjunct1, rule_format, where api = scripted, OF a]
       th [THEN conjunct2, rule_format, where api = scripted, OF b]
  show ?thesis by simp
qed

lemma stat_found:
  assumes "api (lookupCall pth) s = (r, s1)" and "found pth m r"
  shows "stat d api pth (s, calls) = (Return (Some (makeItem d m)), (s1, calls @ [lookupCall pth]))"
  using statRaw_found [where api = api, OF assms, of calls] by (simp add: stat_def)

lemma stat_notFound:
  assumes "api (lookupCall pth) s = (r, s1)" and "notFound r"
  shows "stat d api pth (s, calls) = (Return None, (s1, calls @ [lookupCall pth]))"
  using statRaw_missing [where api = api, OF assms, of calls] by (simp add: stat_def)

lemma mkdir_found:
  assumes "api (lookupCall pth) s = (r, s1)" and "found pth m r"
  shows "mkdir d api pth (s, calls) = (Return (makeItem d m), (s1, calls @ [lookupCall pth]))"
  using stat_found [where api = api, OF assms, of d calls] by (simp add: mkdir_def)

lemma command_of_lookupCall: "command_of (lookupCall pth) \<noteq> ''createfolderifnotexists''"
  by (simp add: lookupCall_def)

section \<open>Listing\<close>

lemma list_calls: "snd (snd (list d api pth opts (s, calls))) = calls @ [listCall pth opts]"
proof -
  obtain r s' where a: "api (listCall pth opts) s = (r, s')" by (cases "api (listCall pth opts) s")
  then show ?thesis
    by (cases r; cases "response_json (case r of Return x \<Rightarrow> x)")
       (simp_all add: list_def listCall_def split: option.splits)
qed

lemma list_hasMore:
  assumes "list d api pth opts st = (Return res, st')"
  shows "hasMore res = False"
proof -
  obtain s calls where st: "st = (s, calls)" by (cases st)
  obtain r s1 where a: "api (listCall pth opts) s = (r, s1)" by (cases "api (listCall pth opts) s")
  from assms show ?thesis
    unfolding st using a
    by (cases r; cases "response_json (case r of Return x \<Rightarrow> x)")
       (auto simp: list_def listCall_def split: option.splits if_splits)
qed

lemma list_not_found:
  assumes "api (listCall pth opts) s = (r, s1)" and "reports FileNotFound r"
  shows "list d api pth opts (s, calls)
           = (Return \<lparr>hasMore = False, items = []\<rparr>, (s1, calls @ [listCall pth opts]))"
proof -
  from assms(2) obtain resp j where "r = Return (Some resp)" "json resp = Some j"
      "result j = FileNotFound"
    unfolding reports_def by (rule body_isD)
  with assms(1) show ?thesis
    by (simp add: list_def listCall_def)
qed

lemma list_contents:
  assumes "api (listCall pth opts) s = (r, s1)" and "carries c m r" and "c \<noteq> FileNotFound"
    and "contents m = Some cs"
  shows "list d api pth opts (s, calls)
           = (Return \<lparr>hasMore = False, items = makeItems d cs\<rparr>, (s1, calls @ [listCall pth opts]))"
proof -
  from assms(2) obtain resp j where "r = Return (Some resp)" "json resp = Some j"
      "result j = c \<and> metadata j = Some m"
    unfolding carries_def by (rule body_isD)
  with assms(1,3,4) show ?thesis
    by (simp add: list_def listCall_def)
qed

text \<open>
  Claim C8. \<open>list\<close> makes exactly one call, a \<open>listfolder\<close> of the path with
  \<open>recursive\<close> set to 1, whatever the reply; every result it returns has \<open>hasMore\<close>
  false; a reply that reports \<open>FileNotFound\<close> gives the empty list of items and no
  error, and a reply that reports \<open>Ok\<close> gives the items of the listed contents.
\<close>

theorem list_single_recursive_listing:
  "(\<forall>(api :: 's api) pth opts s calls.
      snd (snd (list d api pth opts (s, calls)))
        = calls @ [Call ''GET'' ''listfolder''
                     [(''path'', QStr (makePath pth)), (''recursive'', QNum 1)] opts None])
   \<and> (\<forall>(api :: 's api) pth opts st res st'.
        list d api pth opts st = (Return res, st') \<longrightarrow> hasMore res = False)
   \<and> (\<forall>(api :: 's api) pth opts s calls r s1.
        api (listCall pth opts) s = (r, s1) \<and> reports FileNotFound r \<longrightarrow>
          list d api pth opts (s, calls)
            = (Return \<lparr>hasMore = False, items = []\<rparr>, (s1, calls @ [listCall pth opts])))
   \<and> (\<forall>(api :: 's api) pth opts s calls r s1 m cs.
        api (listCall pth opts) s = (r, s1) \<and> carries Ok m r \<and> contents m = Some cs \<longrightarrow>
          list d api pth opts (s, calls)
            = (Return \<lparr>hasMore = False, items = makeItems d cs\<rparr>,
               (s1, calls @ [listCall pth opts])))"
proof (intro conjI allI impI)
  fix api :: "'s api" and pth opts s calls
  show "snd (snd (list d api pth opts (s, calls)))
        = calls @ [Call ''GET'' ''listfolder''
                     [(''path'', QStr (makePath pth)), (''recursive'', QNum 1)] opts None]"
    using list_calls [of d api pth opts s calls] by (simp add: listCall_def)
next
  fix api :: "'s api" and pth opts st res st'
  assume "list d api pth opts st = (Return res, st')"
  then show "hasMore res = False" by (rule list_hasMore)
next
  fix api :: "'s api" and pth opts s calls r s1
  assume "api (listCall pth opts) s = (r, s1) \<and> reports FileNotFound r"
  then show "list d api pth opts (s, calls)
            = (Return \<lparr>hasMore = False, items = []\<rparr>, (s1, calls @ [listCall pth opts]))"
    by (intro list_not_found [where r = r]) simp_all
next
  fix api :: "'s api" and pth opts s calls r s1 m cs
  assume "api (listCall pth opts) s = (r, s1) \<and> carries Ok m r \<and> contents m = Some cs"
  then show "list d api pth opts (s, calls)
            = (Return \<lparr>hasMore = False, items = makeItems d cs\<rparr>,
               (s1, calls @ [listCall pth opts]))"
    by (intro list_contents [where r = r and c = Ok and m = m])
       (simp_all add: Ok_def FileNotFound_def)
qed

theorem list_single_recursive_listing_witness:
  "list example_deps scripted ''notes'' None ([Return (Some (success 2002 None None))], [])
     = (Return \<lparr>hasMore = False, items = []\<rparr>,
        ([], [Call ''GET'' ''listfolder'' [(''path'', QStr ''/notes''), (''recursive'', QNum 1)]
                None None]))
   \<and> list example_deps scripted ''/'' None
       ([Return (Some (success 0
           (Some (PcloudFileMetadata (Some ''/'') (Some True) None None None (Some 0)
                    (Some [folder ''a'' 11]))) None))], [])
     = (Return \<lparr>hasMore = False, items = [makeItem example_deps (folder ''a'' 11)]\<rparr>,
        ([], [listCall ''/'' None]))"
proof -
  let ?root = "PcloudFileMetadata (Some ''/'') (Some True) None None None (Some 0)
                 (Some [folder ''a'' 11])"
  have a: "scripted (listCall ''notes'' None) [Return (Some (success 2002 None None))]
             = (Return (Some (success 2002 None None)), [])
           \<and> reports FileNotFound (Return (Some (success 2002 None None)))"
    by (simp add: scripted_def reports_def body_is_def success_def FileNotFound_def)
  have b: "scripted (listCall ''/'' None) [Return (Some (success 0 (Some ?root) None))]
             = (Return (Some (success 0 (Some ?root) None)), [])
           \<and> carries Ok ?root (Return (Some (success 0 (Some ?root) None)))
           \<and> contents ?root = Some [folder ''a'' 11]"
    by (simp add: scripted_def carries_def body_is_def success_def Ok_def)
  note th = list_single_recursive_listing [where 's = "response option outcome list",
      of example_deps]
  from th [THEN conjunct2, THEN conjunct2, THEN conjunct1, rule_format, where api = scripted,
           OF a, of "[]"]
       th [THEN conjunct2, THEN conjunct2, THEN conjunct2, rule_format, where api = scripted,
           OF b, of "[]"]
  show ?thesis by (simp add: listCall_def makePath_def)
qed

section \<open>Creating directories\<close>

text \<open>
  Claim C5. When the lookup of a path finds an entry, a file or a folder alike, \<open>mkdir\<close>
  returns the stat of that entry and makes no other call than the lookup. Called twice,
  the second call on the state the first one leaves, on a path found both times with
  the same metadata, it returns the same stat both times, and the calls of both
  together hold no creation call.
\<close>

theorem mkdir_existing_idempotent:
  "(\<forall>(api :: 's api) pth s calls r s1 m.
      api (lookupCall pth) s = (r, s1) \<and> found pth m r \<longrightarrow>
        mkdir d api pth (s, calls) = (Return (makeItem d m), (s1, calls @ [lookupCall pth]))
        \<and> calls_of ''createfolderifnotexists'' (calls @ [lookupCall pth])
            = calls_of ''createfolderifnotexists'' calls)
   \<and> (\<forall>(api :: 's api) pth s calls r s1 r' s2 m.
        api (lookupCall pth) s = (r, s1) \<and> found pth m r
        \<and> api (lookupCall pth) s1 = (r', s2) \<and> found pth m r' \<longrightarrow>
          fst (mkdir d api pth (s, calls)) = Return (makeItem d m)
          \<and> fst (mkdir d api pth (snd (mkdir d api pth (s, calls)))) = Return (makeItem d m)
          \<and> calls_of ''createfolderifnotexists''
               (snd (snd (mkdir d api pth (snd (mkdir d api pth (s, calls))))))
              = calls_of ''createfolderifnotexists'' calls)"
proof (intro conjI allI impI)
  fix api :: "'s api" and pth s calls r s1 m
  assume h: "api (lookupCall pth) s = (r, s1) \<and> found pth m r"
  then show "mkdir d api pth (s, calls) = (Return (makeItem d m), (s1, calls @ [lookupCall pth]))"
    by (intro mkdir_found [where r = r]) simp_all
  show "calls_of ''createfolderifnotexists'' (calls @ [lookupCall pth])
            = calls_of ''createfolderifnotexists'' calls"
    by (simp add: calls_of_def command_of_lookupCall)
next
  fix api :: "'s api" and pth s calls r s1 r' s2 m
  assume h: "api (lookupCall pth) s = (r, s1) \<and> found pth m r
        \<and> api (lookupCall pth) s1 = (r', s2) \<and> found pth m r'"
  from h have 1: "mkdir d api pth (s, calls) = (Return (makeItem d m), (s1, calls @ [lookupCall pth]))"
    by (intro mkdir_found [where r = r]) simp_all
  from h have 2: "mkdir d api pth (s1, calls @ [lookupCall pth])
                    = (Return (makeItem d m), (s2, (calls @ [lookupCall pth]) @ [lookupCall pth]))"
    by (intro mkdir_found [where r = r']) simp_all
  from 1 show "fst (mkdir d api pth (s, calls)) = Return (makeItem d m)" by simp
  from 1 2 show "fst (mkdir d api pth (snd (mkdir d api pth (s, calls)))) = Return (makeItem d m)"
    by simp
  from 1 2 show "calls_of ''createfolderifnotexists''
               (snd (snd (mkdir d api pth (snd (mkdir d api pth (s, calls))))))
              = calls_of ''createfolderifnotexists'' calls"
    by (simp add: calls_of_def command_of_lookupCall)
qed

theorem mkdir_existing_idempotent_witness:
  "mkdir example_deps scripted ''/a''
     ([Return (Some (success 0 (Some (folder ''a'' 11)) None)),
       Return (Some (success 0 (Some (folder ''a'' 11)) None))], [])
     = (Return (makeItem example_deps (folder ''a'' 11)),
        ([Return (Some (success 0 (Some (folder ''a'' 11)) None))], [lookupCall ''/a'']))
   \<and> fst (mkdir example_deps scripted ''/a''
         (snd (mkdir example_deps scripted ''/a''
            ([Return (Some (success 0 (Some (folder ''a'' 11)) None)),
              Return (Some (success 0 (Some (folder ''a'' 11)) None))], []))))
     = Return (makeItem example_deps (folder ''a'' 11))
   \<and> calls_of ''createfolderifnotexists''
        (snd (snd (mkdir example_deps scripted ''/a''
           (snd (mkdir example_deps scripted ''/a''
              ([Return (Some (success 0 (Some (folder ''a'' 11)) None)),
                Return (Some (success 0 (Some (folder ''a'' 11)) None))], []))))))
     = 0"
proof -
  let ?r = "Return (Some (success 0 (Some (folder ''a'' 11)) None))"
  have f: "found ''/a'' (folder ''a'' 11) ?r"
    by (simp add: found_def body_is_def success_def Ok_def)
  have a: "scripted (lookupCall ''/a'') [?r, ?r] = (?r, [?r]) \<and> found ''/a'' (folder ''a'' 11) ?r"
    using f by (simp add: scripted_def)
  have b: "scripted (lookupCall ''/a'') [?r, ?r] = (?r, [?r]) \<and> found ''/a'' (folder ''a'' 11) ?r
           \<and> scripted (lookupCall ''/a'') [?r] = (?r, []) \<and> found ''/a'' (folder ''a'' 11) ?r"
    using f by (simp add: scripted_def)
  note th = mkdir_existing_idempotent [where 's = "response option outcome list", of example_deps]
  from th [THEN conjunct1, rule_format, where api = scripted, OF a, of "[]"]
       th [THEN conjunct2, rule_format, where api = scripted, OF b, of "[]"]
  show ?thesis by (simp add: calls_of_def)
qed

lemma mkdir_parent_found:
  assumes "api (lookupCall pth) s = (r1, s1)" and "notFound r1"
    and "dirname d pth = Return parent"
    and "api (lookupCall parent) s1 = (r2, s2)" and "found parent pm r2"
    and "api (createCall (folderid pm) parent) s2 = (r3, s3)" and "carries Ok nm r3"
  shows "mkdir d api pth (s, calls)
           = (Return (makeItem d nm),
              (s3, calls @ [lookupCall pth, lookupCall parent, createCall (folderid pm) parent]))"
  using stat_notFound [where api = api, OF assms(1,2), of d calls]
    statRaw_found [where api = api, OF assms(4,5), of "calls @ [lookupCall pth]"]
    execCreateDir_created [where api = api, OF assms(6,7),
      of "calls @ [lookupCall pth, lookupCall parent]"]
    assms(3)
  by (simp add: mkdir_def)

text \<open>
  Claim C6. When a path is not found and its parent is, \<open>mkdir\<close> makes one
  \<open>createfolderifnotexists\<close> call in the parent's folder, and the name it asks for is
  the parent path \<open>dirname(path)\<close> itself, not the final component of the path; it
  returns the stat of whatever that call created.
\<close>

theorem mkdir_names_new_directory_after_parent:
  assumes "api (lookupCall pth) s = (r1, s1)" and "notFound r1"
    and "dirname d pth = Return parent"
    and "api (lookupCall parent) s1 = (r2, s2)" and "found parent pm r2"
    and "api (createCall (folderid pm) parent) s2 = (r3, s3)" and "carries Ok nm r3"
  shows "mkdir d api pth (s, calls)
           = (Return (makeItem d nm),
              (s3, calls @ [lookupCall pth, lookupCall parent,
                            Call ''GET'' ''createfolderifnotexists''
                              [(''folderid'', qnum (folderid pm)), (''name'', QStr parent)]
                              None None]))"
  using mkdir_parent_found [where api = api, OF assms, of calls]
  by (simp add: createCall_def)

theorem mkdir_names_new_directory_after_parent_witness:
  "basename example_deps ''/a/b'' = Return ''b''
   \<and> mkdir example_deps scripted ''/a/b''
       ([Return (Some (success 2002 None None)),
         Return (Some (success 0 (Some (folder ''a'' 11)) None)),
         Return (Some (success 0 (Some (folder ''/a'' 12)) None))], [])
     = (Return (makeItem example_deps (folder ''/a'' 12)),
        ([], [lookupCall ''/a/b'', lookupCall ''/a'',
              Call ''GET'' ''createfolderifnotexists''
                [(''folderid'', QNum 11), (''name'', QStr ''/a'')] None None]))"
proof -
  let ?s = "[Return (Some (success 2002 None None)),
         Return (Some (success 0 (Some (folder ''a'' 11)) None)),
         Return (Some (success 0 (Some (folder ''/a'' 12)) None))]"
  have 1: "scripted (lookupCall ''/a/b'') ?s = (hd ?s, tl ?s)"
    by (simp add: scripted_def)
  have 2: "notFound (hd ?s)"
    by (simp add: notFound_def body_is_def success_def FileNotFound_def)
  have 3: "dirname example_deps ''/a/b'' = Return ''/a''"
    by (simp add: example_deps_def)
  have 4: "scripted (lookupCall ''/a'') (tl ?s) = (hd (tl ?s), tl (tl ?s))"
    by (simp add: scripted_def)
  have 5: "found ''/a'' (folder ''a'' 11) (hd (tl ?s))"
    by (simp add: found_def body_is_def success_def Ok_def)
  have 6: "scripted (createCall (folderid (folder ''a'' 11)) ''/a'') (tl (tl ?s))
             = (hd (tl (tl ?s)), [])"
    by (simp add: scripted_def)
  have 7: "carries Ok (folder ''/a'' 12) (hd (tl (tl ?s)))"
    by (simp add: carries_def body_is_def success_def Ok_def)
  have 8: "basename example_deps ''/a/b'' = Return ''b''"
    by (simp add: example_deps_def)
  from mkdir_names_new_directory_after_parent [where api = scripted, OF 1 2 3 4 5 6 7, of "[]"] 8
  show ?thesis by (simp add: folder_def)
qed

text \<open>
  Claim C10. When neither a path nor its parent is found, the parent lookup of \<open>mkdir\<close>
  yields null and reading \<open>folderid\<close> off it throws a \<open>TypeError\<close>: \<open>mkdir\<close> makes the
  two lookups, no creation call, and ends in that error.
\<close>

theorem mkdir_missing_parent_null_dereference:
  assumes "api (lookupCall pth) s = (r1, s1)" and "notFound r1"
    and "dirname d pth = Return parent"
    and "api (lookupCall parent) s1 = (r2, s2)" and "notFound r2"
  shows "mkdir d api pth (s, calls)
           = (Raise TypeError, (s2, calls @ [lookupCall pth, lookupCall parent]))"
  using stat_notFound [where api = api, OF assms(1,2), of d calls]
    statRaw_missing [where api = api, OF assms(4,5), of "calls @ [lookupCall pth]"]
    assms(3)
  by (simp add: mkdir_def)

theorem mkdir_missing_parent_null_dereference_witness:
  "mkdir example_deps scripted ''/a/b''
     ([Return (Some (success 2002 None None)), Return (Some (success 2002 None None))], [])
   = (Raise TypeError, ([], [lookupCall ''/a/b'', lookupCall ''/a'']))"
proof -
  let ?r = "Return (Some (success 2002 None None))"
  have 1: "scripted (lookupCall ''/a/b'') [?r, ?r] = (?r, [?r])"
    by (simp add: scripted_def)
  have 2: "notFound ?r"
    by (simp add: notFound_def body_is_def success_def FileNotFound_def)
  have 3: "dirname example_deps ''/a/b'' = Return ''/a''"
    by (simp add: example_deps_def)
  have 4: "scripted (lookupCall ''/a'') [?r] = (?r, [])"
    by (simp add: scripted_def)
  from mkdir_missing_parent_null_dereference [where api = scripted, OF 1 2 3 4 2, of "[]"]
  show ?thesis by simp
qed

end
